theory Spec2Isabelle
  imports Main "HOL-Library.Word" "HOL-Library.Char_ord" "HOL-Library.List_Lexorder"
    "HOL-Library.AList"
begin

unbundle bit_operations_syntax


section \<open>Python values shared by all modules\<close>

text \<open>
  Exceptions are values.  The message of an exception is kept only where a caller can
  observe it; the repository never inspects messages, so most constructors carry none.
\<close>

datatype py_exn =
    ValueError
  | TypeError
  | AttributeError
  | KeyError string
  | HashComputationError
  | ArkeAPIError
  | ArkeValidationError
  | ArkeNotFoundError
  | ArkeConflictError
  | HTTPError
  | OtherException

text \<open>\<^verbatim>\<open>str(n)\<close> for a Python \<^verbatim>\<open>int\<close>: decimal digits, a leading minus sign when negative.\<close>

definition digit_char :: "nat \<Rightarrow> char" where
  "digit_char d = ''0123456789'' ! (d mod 10)"

fun nat_digits :: "nat \<Rightarrow> string" where
  "nat_digits n = (if n < 10 then [digit_char n] else nat_digits (n div 10) @ [digit_char (n mod 10)])"

declare nat_digits.simps [simp del]

definition py_str :: "int \<Rightarrow> string" where
  "py_str i = (if i < 0 then CHR ''-'' # nat_digits (nat (- i)) else nat_digits (nat i))"


text \<open>
  Values that travel as JSON: catalog records, request payloads, source metadata.  A
  Python \<^verbatim>\<open>dict\<close> keeps its keys in insertion order and never holds a key twice, so it
  is an association list; \<open>AList.update\<close> is \<^verbatim>\<open>d[k] = v\<close> (in place for an existing key,
  appended for a new one).  A finite \<^verbatim>\<open>float\<close> is a number \<open>m * 2 ^ e\<close> with integers \<open>m\<close>
  and \<open>e\<close>; it is carried as \<open>m\<close>, \<open>e\<close> and its \<^verbatim>\<open>repr\<close>, the text that \<^verbatim>\<open>json.dumps\<close>
  prints for it (so \<^verbatim>\<open>0.0\<close> and \<^verbatim>\<open>-0.0\<close> are the number 0 with two different texts).
\<close>

datatype json =
    JNull
  | JBool bool
  | JInt int
  | JFloat int int string
  | JStr string
  | JList "json list"
  | JDict "(string \<times> json) list"

text \<open>Python truthiness, as used by \<^verbatim>\<open>if x:\<close> and \<^verbatim>\<open>x or y\<close>.\<close>

fun truthy :: "json \<Rightarrow> bool" where
  "truthy JNull = False"
| "truthy (JBool b) = b"
| "truthy (JInt i) = (i \<noteq> 0)"
| "truthy (JFloat m e r) = (m \<noteq> 0)"
| "truthy (JStr s) = (s \<noteq> [])"
| "truthy (JList xs) = (xs \<noteq> [])"
| "truthy (JDict kvs) = (kvs \<noteq> [])"

text \<open>An \<^verbatim>\<open>Optional[str]\<close> or \<^verbatim>\<open>Optional[int]\<close> argument as a JSON value.\<close>

definition opt_str :: "string option \<Rightarrow> json" where
  "opt_str s = (case s of None \<Rightarrow> JNull | Some t \<Rightarrow> JStr t)"

definition opt_int :: "int option \<Rightarrow> json" where
  "opt_int i = (case i of None \<Rightarrow> JNull | Some n \<Rightarrow> JInt n)"

text \<open>\<^verbatim>\<open>if v: record[k] = v\<close>.\<close>

definition set_if_truthy :: "string \<Rightarrow> json \<Rightarrow> (string \<times> json) list \<Rightarrow> (string \<times> json) list" where
  "set_if_truthy k v record = (if truthy v then AList.update k v record else record)"

text \<open>\<^verbatim>\<open>str(x)\<close> inside an f-string for an \<^verbatim>\<open>Optional[int]\<close>.\<close>

definition py_str_opt :: "int option \<Rightarrow> string" where
  "py_str_opt i = (case i of None \<Rightarrow> ''None'' | Some n \<Rightarrow> py_str n)"

section \<open>lib/nara\_pi.py\<close>

text \<open>\<^verbatim>\<open>s.split(c)\<close> for a one-character separator: always at least one part.\<close>

fun split_on :: "char \<Rightarrow> string \<Rightarrow> string list" where
  "split_on c [] = [[]]"
| "split_on c (x # xs) =
     (if x = c then [] # split_on c xs
      else (case split_on c xs of [] \<Rightarrow> [[x]] | p # ps \<Rightarrow> (x # p) # ps))"

text \<open>\<^verbatim>\<open>c.join(parts)\<close>.\<close>

fun join_with :: "char \<Rightarrow> string list \<Rightarrow> string" where
  "join_with c [] = []"
| "join_with c [p] = p"
| "join_with c (p # q # ps) = p @ c # join_with c (q # ps)"

text \<open>The \<^verbatim>\<open>nara_id\<close> argument is \<^verbatim>\<open>str | int\<close>; an f-string formats either one.\<close>

datatype nara_id = NaraStr string | NaraInt int

fun format_nara_id :: "nara_id \<Rightarrow> string" where
  "format_nara_id (NaraStr s) = s"
| "format_nara_id (NaraInt i) = py_str i"

definition generate_semantic_id :: "string \<Rightarrow> string \<Rightarrow> nara_id \<Rightarrow> string" where
  "generate_semantic_id collection_id entity_type nid =
     ''NARA-'' @ collection_id @ ''-'' @ entity_type @ ''-'' @ format_nara_id nid"

record pi_parts =
  pp_prefix :: string
  pp_collection_id :: string
  pp_entity_type :: string
  pp_nara_id :: string
  pp_ulid :: string

definition valid_types :: "string list" where
  "valid_types = [''COL'', ''SER'', ''FILE'', ''OBJ'']"

text \<open>
  \<^verbatim>\<open>parts[-k]\<close> is read only after the length guard, where it is \<open>parts ! (n - k)\<close>;
  the slice \<^verbatim>\<open>parts[1:-3]\<close> is \<open>drop 1 (take (n - 3) parts)\<close>.
\<close>

definition parse_pi :: "string \<Rightarrow> py_exn + pi_parts" where
  "parse_pi pi =
     (let parts = split_on CHR ''-'' pi; n = length parts in
      if n < 6 then Inl ValueError
      else let prefix = parts ! 0 in
        if prefix \<noteq> ''NARA'' then Inl ValueError
        else let entity_type = parts ! (n - 3);
                 nara = parts ! (n - 2);
                 ulid = parts ! (n - 1);
                 collection_id = join_with CHR ''-'' (drop 1 (take (n - 3) parts)) in
          if entity_type \<notin> set valid_types then Inl ValueError
          else Inr \<lparr>pp_prefix = prefix, pp_collection_id = collection_id,
                    pp_entity_type = entity_type, pp_nara_id = nara, pp_ulid = ulid\<rparr>)"

definition is_valid_pi :: "string \<Rightarrow> bool" where
  "is_valid_pi pi = (case parse_pi pi of Inl e \<Rightarrow> False | Inr r \<Rightarrow> True)"



section \<open>hashlib.sha256 (FIPS 180-4), the digest used by lib/nara\_hash\_utils.py\<close>

type_synonym byte = "8 word"
type_synonym u32 = "32 word"

definition rotr :: "nat \<Rightarrow> u32 \<Rightarrow> u32" where
  "rotr n w = drop_bit n w OR push_bit (32 - n) w"

definition Ch :: "u32 \<Rightarrow> u32 \<Rightarrow> u32 \<Rightarrow> u32" where
  "Ch x y z = (x AND y) XOR (NOT x AND z)"

definition Maj :: "u32 \<Rightarrow> u32 \<Rightarrow> u32 \<Rightarrow> u32" where
  "Maj x y z = (x AND y) XOR (x AND z) XOR (y AND z)"

definition Sigma0 :: "u32 \<Rightarrow> u32" where
  "Sigma0 x = rotr 2 x XOR rotr 13 x XOR rotr 22 x"

definition Sigma1 :: "u32 \<Rightarrow> u32" where
  "Sigma1 x = rotr 6 x XOR rotr 11 x XOR rotr 25 x"

definition sigma0 :: "u32 \<Rightarrow> u32" where
  "sigma0 x = rotr 7 x XOR rotr 18 x XOR drop_bit 3 x"

definition sigma1 :: "u32 \<Rightarrow> u32" where
  "sigma1 x = rotr 17 x XOR rotr 19 x XOR drop_bit 10 x"

text \<open>
  The round constants (the first 32 bits of the fractional parts of the cube roots of
  the first 64 primes) and the initial hash value (likewise, square roots of the first
  8 primes), in decimal.
\<close>

definition sha256_K :: "u32 list" where
  "sha256_K =
    [1116352408, 1899447441, 3049323471, 3921009573, 961987163, 1508970993,
     2453635748, 2870763221, 3624381080, 310598401, 607225278, 1426881987,
     1925078388, 2162078206, 2614888103, 3248222580, 3835390401, 4022224774,
     264347078, 604807628, 770255983, 1249150122, 1555081692, 1996064986,
     2554220882, 2821834349, 2952996808, 3210313671, 3336571891, 3584528711,
     113926993, 338241895, 666307205, 773529912, 1294757372, 1396182291,
     1695183700, 1986661051, 2177026350, 2456956037, 2730485921, 2820302411,
     3259730800, 3345764771, 3516065817, 3600352804, 4094571909, 275423344,
     430227734, 506948616, 659060556, 883997877, 958139571, 1322822218,
     1537002063, 1747873779, 1955562222, 2024104815, 2227730452, 2361852424,
     2428436474, 2756734187, 3204031479, 3329325298]"

definition sha256_H0 :: "u32 list" where
  "sha256_H0 =
    [1779033703, 3144134277, 1013904242, 2773480762, 1359893119, 2600822924, 528734635, 1541459225]"

text \<open>The message length in bits as eight big-endian bytes.\<close>

definition be_bytes8 :: "nat \<Rightarrow> byte list" where
  "be_bytes8 n = map (\<lambda>i. of_nat (n div 256 ^ i mod 256)) [7, 6, 5, 4, 3, 2, 1, 0]"

definition sha256_pad :: "byte list \<Rightarrow> byte list" where
  "sha256_pad m =
     m @ [0x80] @ replicate ((119 - length m mod 64) mod 64) 0 @ be_bytes8 (8 * length m)"

definition be_word :: "byte list \<Rightarrow> u32" where
  "be_word bs = foldl (\<lambda>acc b. push_bit 8 acc OR ucast b) 0 bs"

fun chunks_of :: "nat \<Rightarrow> 'a list \<Rightarrow> 'a list list" where
  "chunks_of n xs = (if n = 0 \<or> xs = [] then [] else take n xs # chunks_of n (drop n xs))"

declare chunks_of.simps [simp del]

text \<open>
  The message schedule: \<open>expand n win\<close> produces the next \<open>n\<close> words from the window of
  the last sixteen, \<open>W\<^sub>t = \<sigma>\<^sub>1(W\<^sub>t\<^sub>-\<^sub>2) + W\<^sub>t\<^sub>-\<^sub>7 + \<sigma>\<^sub>0(W\<^sub>t\<^sub>-\<^sub>1\<^sub>5) + W\<^sub>t\<^sub>-\<^sub>1\<^sub>6\<close>.
\<close>

fun expand :: "nat \<Rightarrow> u32 list \<Rightarrow> u32 list" where
  "expand (Suc n) [w0, w1, w2, w3, w4, w5, w6, w7, w8, w9, w10, w11, w12, w13, w14, w15] =
     (let x = sigma1 w14 + w9 + sigma0 w1 + w0
      in x # expand n [w1, w2, w3, w4, w5, w6, w7, w8, w9, w10, w11, w12, w13, w14, w15, x])"
| "expand n ws = []"

definition schedule :: "byte list \<Rightarrow> u32 list" where
  "schedule block = (let ws = map be_word (chunks_of 4 block) in ws @ expand 48 ws)"

fun sha_round :: "u32 list \<Rightarrow> u32 \<times> u32 \<Rightarrow> u32 list" where
  "sha_round [a, b, c, d, e, f, g, h] (k, w) =
     (let t1 = h + Sigma1 e + Ch e f g + k + w;
          t2 = Sigma0 a + Maj a b c
      in [t1 + t2, a, b, c, d + t1, e, f, g])"
| "sha_round s kw = s"

definition compress :: "u32 list \<Rightarrow> byte list \<Rightarrow> u32 list" where
  "compress hs block = map2 (+) hs (foldl sha_round hs (zip sha256_K (schedule block)))"

definition sha256_words :: "byte list \<Rightarrow> u32 list" where
  "sha256_words m = foldl compress sha256_H0 (chunks_of 64 (sha256_pad m))"

definition hex_digits :: string where
  "hex_digits = ''0123456789abcdef''"

definition hex_char :: "nat \<Rightarrow> char" where
  "hex_char d = hex_digits ! (d mod 16)"

definition hex_u32 :: "u32 \<Rightarrow> string" where
  "hex_u32 w = map (\<lambda>i. hex_char (unat (drop_bit (4 * i) w AND 15))) [7, 6, 5, 4, 3, 2, 1, 0]"

text \<open>\<^verbatim>\<open>hashlib.sha256(m).hexdigest()\<close>.\<close>

definition sha256_hex :: "byte list \<Rightarrow> string" where
  "sha256_hex m = concat (map hex_u32 (sha256_words m))"

text \<open>A Python \<^verbatim>\<open>bytes\<close> literal of ASCII characters.\<close>

definition bytes_of :: "string \<Rightarrow> byte list" where
  "bytes_of s = map of_char s"

section \<open>lib/nara\_hash\_utils.py\<close>

text \<open>
  What \<^verbatim>\<open>requests.get(s3_url, stream=True)\<close> and the iteration over
  \<^verbatim>\<open>response.iter_content\<close> can do: the request raises, or a response arrives with a
  status code and a sequence of chunks, whose stream either ends normally (\<open>True\<close>) or
  breaks with an exception after the listed chunks (\<open>False\<close>).
\<close>

datatype remote = RequestFailed | Response nat "byte list list" bool

text \<open>\<^verbatim>\<open>response.raise_for_status()\<close> raises for the 4xx and 5xx codes.\<close>

definition raise_for_status :: "nat \<Rightarrow> bool" where
  "raise_for_status status = (400 \<le> status \<and> status < 600)"

text \<open>
  The loop over the chunks.  The hasher is the sequence of bytes fed to it so far
  (\<^verbatim>\<open>hasher.update(chunk)\<close> appends); empty keep-alive chunks are skipped.
\<close>

fun hash_loop :: "byte list list \<Rightarrow> byte list \<times> nat \<Rightarrow> byte list \<times> nat" where
  "hash_loop [] (hasher, total_bytes) = (hasher, total_bytes)"
| "hash_loop (chunk # rest) (hasher, total_bytes) =
     (if chunk \<noteq> [] then hash_loop rest (hasher @ chunk, total_bytes + length chunk)
      else hash_loop rest (hasher, total_bytes))"

text \<open>Every exception inside the function is re-raised as \<^verbatim>\<open>HashComputationError\<close>.\<close>

definition download_and_hash_s3 :: "remote \<Rightarrow> py_exn + string \<times> nat" where
  "download_and_hash_s3 r =
     (case r of
        RequestFailed \<Rightarrow> Inl HashComputationError
      | Response status chunks complete \<Rightarrow>
          if raise_for_status status then Inl HashComputationError
          else if \<not> complete then Inl HashComputationError
          else (case hash_loop chunks ([], 0) of
                  (hasher, total_bytes) \<Rightarrow> Inr (sha256_hex hasher, total_bytes)))"


section \<open>json.dumps with sort\_keys=True\<close>

text \<open>
  The default encoder: separators \<^verbatim>\<open>", "\<close> and \<^verbatim>\<open>": "\<close>, \<^verbatim>\<open>ensure_ascii\<close> escaping.  A
  character is a code point below 256 here; everything outside the printable ASCII
  range is written as a \<^verbatim>\<open>\u00XX\<close> escape.
\<close>

definition hex4 :: "nat \<Rightarrow> string" where
  "hex4 n = map (\<lambda>i. hex_char (n div 16 ^ i)) [3, 2, 1, 0]"

definition escape_char :: "char \<Rightarrow> string" where
  "escape_char c =
     (if c = CHR 0x22 then [CHR 0x5C, CHR 0x22]
      else if c = CHR 0x5C then [CHR 0x5C, CHR 0x5C]
      else if c = CHR 0x0A then [CHR 0x5C, CHR ''n'']
      else if c = CHR 0x0D then [CHR 0x5C, CHR ''r'']
      else if c = CHR 0x09 then [CHR 0x5C, CHR ''t'']
      else if c = CHR 0x08 then [CHR 0x5C, CHR ''b'']
      else if c = CHR 0x0C then [CHR 0x5C, CHR ''f'']
      else if 32 \<le> (of_char c :: nat) \<and> (of_char c :: nat) \<le> 126 then [c]
      else [CHR 0x5C, CHR ''u''] @ hex4 (of_char c))"

definition dumps_str :: "string \<Rightarrow> string" where
  "dumps_str s = [CHR 0x22] @ concat (map escape_char s) @ [CHR 0x22]"

text \<open>\<^verbatim>\<open>sep.join(parts)\<close> for a separator string.\<close>

fun join_str :: "string \<Rightarrow> string list \<Rightarrow> string" where
  "join_str sep [] = []"
| "join_str sep [p] = p"
| "join_str sep (p # q # ps) = p @ sep @ join_str sep (q # ps)"

function json_dumps :: "json \<Rightarrow> string" where
  "json_dumps JNull = ''null''"
| "json_dumps (JBool b) = (if b then ''true'' else ''false'')"
| "json_dumps (JInt i) = py_str i"
| "json_dumps (JFloat m e r) = r"
| "json_dumps (JStr s) = dumps_str s"
| "json_dumps (JList xs) = ''['' @ join_str '', '' (map json_dumps xs) @ '']''"
| "json_dumps (JDict kvs) =
     ''{'' @ join_str '', ''
        (map (\<lambda>kv. dumps_str (fst kv) @ '': '' @ json_dumps (snd kv)) (sort_key fst kvs)) @ ''}''"
  by pat_completeness auto
termination
proof (relation "measure size")
  show "wf (measure size)" by simp
next
  fix xs :: "json list" and x
  assume "x \<in> set xs"
  then have "size x \<le> size_list size xs"
    by (rule size_list_estimation') simp
  then show "(x, JList xs) \<in> measure size" by simp
next
  fix kvs :: "(string \<times> json) list" and kv
  assume "kv \<in> set (sort_key fst kvs)"
  then have "kv \<in> set kvs" by simp
  moreover have "size (snd kv) \<le> size_prod (\<lambda>_. 0) size kv"
    by (cases kv) simp
  ultimately have "size (snd kv) \<le> size_list (size_prod (\<lambda>_. 0) size) kvs"
    by (rule size_list_estimation')
  then show "(snd kv, JDict kvs) \<in> measure size" by simp
qed

text \<open>\<open>m1 * 2 ^ e1 = m2 * 2 ^ e2\<close>, with both sides scaled to integers.\<close>

definition dyadic_eq :: "int \<Rightarrow> int \<Rightarrow> int \<Rightarrow> int \<Rightarrow> bool" where
  "dyadic_eq m1 e1 m2 e2 =
     (m1 * 2 ^ nat (e1 - min e1 e2) = m2 * 2 ^ nat (e2 - min e1 e2))"

text \<open>
  Two JSON values are the same up to the insertion order of dictionary keys, at every
  depth: the same keys, and under each key values of the same kind that print alike.
  Both sides must be dictionaries in Python's sense: no key twice.  This is stricter
  than Python's \<^verbatim>\<open>==\<close> below, which also identifies \<^verbatim>\<open>1\<close>, \<^verbatim>\<open>True\<close> and \<^verbatim>\<open>1.0\<close>.
\<close>

function same_map :: "json \<Rightarrow> json \<Rightarrow> bool" where
  "same_map (JList xs) b =
     (case b of JList ys \<Rightarrow> length xs = length ys \<and> (\<forall>i < length xs. same_map (xs ! i) (ys ! i))
      | _ \<Rightarrow> False)"
| "same_map (JDict kvs) b =
     (case b of JDict kws \<Rightarrow>
        distinct (map fst kvs) \<and> distinct (map fst kws) \<and> set (map fst kvs) = set (map fst kws)
        \<and> (\<forall>kv \<in> set kvs. \<forall>kw \<in> set kws. fst kv = fst kw \<longrightarrow> same_map (snd kv) (snd kw))
      | _ \<Rightarrow> False)"
| "same_map JNull b = (b = JNull)"
| "same_map (JBool x) b = (b = JBool x)"
| "same_map (JInt i) b = (b = JInt i)"
| "same_map (JFloat m e r) b =
     (case b of JFloat m' e' r' \<Rightarrow> r' = r \<and> dyadic_eq m e m' e' | _ \<Rightarrow> False)"
| "same_map (JStr s) b = (b = JStr s)"
  by pat_completeness auto
termination
proof (relation "measure (\<lambda>(a, b). size a)")
  show "wf (measure (\<lambda>(a, b). size a))" by simp
next
  fix xs ys :: "json list" and b i
  assume "i < length xs"
  then have "xs ! i \<in> set xs" by simp
  then have "size (xs ! i) \<le> size_list size xs"
    by (rule size_list_estimation') simp
  then show "((xs ! i, ys ! i), (JList xs, b)) \<in> measure (\<lambda>(a, b). size a)" by simp
next
  fix kvs kws :: "(string \<times> json) list" and b kv kw
  assume "kv \<in> set kvs"
  moreover have "size (snd kv) \<le> size_prod (\<lambda>_. 0) size kv"
    by (cases kv) simp
  ultimately have "size (snd kv) \<le> size_list (size_prod (\<lambda>_. 0) size) kvs"
    by (rule size_list_estimation')
  then show "((snd kv, snd kw), (JDict kvs, b)) \<in> measure (\<lambda>(a, b). size a)" by simp
qed

text \<open>
  Python's \<^verbatim>\<open>==\<close> on such values.  \<^verbatim>\<open>bool\<close> is a subclass of \<^verbatim>\<open>int\<close> and numbers compare
  by value across \<^verbatim>\<open>bool\<close>, \<^verbatim>\<open>int\<close> and \<^verbatim>\<open>float\<close>; lists compare element by element;
  dictionaries compare as maps, whatever the order of their keys.
\<close>

fun py_num :: "json \<Rightarrow> (int \<times> int) option" where
  "py_num (JBool b) = Some (if b then 1 else 0, 0)"
| "py_num (JInt i) = Some (i, 0)"
| "py_num (JFloat m e r) = Some (m, e)"
| "py_num j = None"

definition num_eq :: "int \<Rightarrow> int \<Rightarrow> json \<Rightarrow> bool" where
  "num_eq m e b = (case py_num b of None \<Rightarrow> False | Some (m', e') \<Rightarrow> dyadic_eq m e m' e')"

function py_eq :: "json \<Rightarrow> json \<Rightarrow> bool" where
  "py_eq (JList xs) b =
     (case b of JList ys \<Rightarrow> length xs = length ys \<and> (\<forall>i < length xs. py_eq (xs ! i) (ys ! i))
      | _ \<Rightarrow> False)"
| "py_eq (JDict kvs) b =
     (case b of JDict kws \<Rightarrow>
        set (map fst kvs) = set (map fst kws)
        \<and> (\<forall>kv \<in> set kvs. \<forall>kw \<in> set kws. fst kv = fst kw \<longrightarrow> py_eq (snd kv) (snd kw))
      | _ \<Rightarrow> False)"
| "py_eq JNull b = (b = JNull)"
| "py_eq (JBool x) b = num_eq (if x then 1 else 0) 0 b"
| "py_eq (JInt i) b = num_eq i 0 b"
| "py_eq (JFloat m e r) b = num_eq m e b"
| "py_eq (JStr s) b = (b = JStr s)"
  by pat_completeness auto
termination
proof (relation "measure (\<lambda>(a, b). size a)")
  show "wf (measure (\<lambda>(a, b). size a))" by simp
next
  fix xs ys :: "json list" and b i
  assume "i < length xs"
  then have "xs ! i \<in> set xs" by simp
  then have "size (xs ! i) \<le> size_list size xs"
    by (rule size_list_estimation') simp
  then show "((xs ! i, ys ! i), (JList xs, b)) \<in> measure (\<lambda>(a, b). size a)" by simp
next
  fix kvs kws :: "(string \<times> json) list" and b kv kw
  assume "kv \<in> set kvs"
  moreover have "size (snd kv) \<le> size_prod (\<lambda>_. 0) size kv"
    by (cases kv) simp
  ultimately have "size (snd kv) \<le> size_list (size_prod (\<lambda>_. 0) size) kvs"
    by (rule size_list_estimation')
  then show "((snd kv, snd kw), (JDict kvs, b)) \<in> measure (\<lambda>(a, b). size a)" by simp
qed


section \<open>arke\_api\_client.py\<close>

text \<open>
  The remote store is outside the repository.  For an upload it is a function from the
  posted bytes to its reply: a content-addressed store answers from the content alone.
  The bodies of the POST requests to \<^verbatim>\<open>/upload\<close> are recorded in order, so that what is
  uploaded can be read off.
\<close>

datatype upload_reply = UploadFailed | UploadReply nat string nat

definition upload_bytes ::
  "(byte list \<Rightarrow> upload_reply) \<Rightarrow> byte list \<Rightarrow> byte list list
     \<Rightarrow> (py_exn + string \<times> nat) \<times> byte list list" where
  "upload_bytes store data sent =
     ((case store data of
         UploadFailed \<Rightarrow> Inl OtherException
       | UploadReply status cid sz \<Rightarrow>
           if raise_for_status status then Inl HTTPError else Inr (cid, sz)),
      sent @ [data])"

text \<open>
  \<^verbatim>\<open>json.dumps(data, sort_keys=True).encode("utf-8")\<close>: the dump is ASCII, so the encoding
  maps each character to its byte.
\<close>

definition upload_json ::
  "(byte list \<Rightarrow> upload_reply) \<Rightarrow> json \<Rightarrow> byte list list \<Rightarrow> (py_exn + string) \<times> byte list list" where
  "upload_json store data sent =
     (let json_bytes = bytes_of (json_dumps data) in
      case upload_bytes store json_bytes sent of
        (Inl e, sent1) \<Rightarrow> (Inl e, sent1)
      | (Inr (cid, sz), sent1) \<Rightarrow> (Inr cid, sent1))"








section \<open>nara\_schema.py\<close>

text \<open>
  Each builder reads the clock once (\<^verbatim>\<open>datetime.utcnow().isoformat()\<close>); the reading is
  the first argument \<open>now\<close>.  Optional arguments are JSON values, \<open>JNull\<close> for \<^verbatim>\<open>None\<close>.
\<close>

definition create_institution_catalog_record :: "string \<Rightarrow> string \<Rightarrow> json \<Rightarrow> json \<Rightarrow> json \<Rightarrow> json" where
  "create_institution_catalog_record now name description url location =
     (let record = [(''schema'', JStr ''nara-institution@v1''),
                    (''name'', JStr name),
                    (''import_timestamp'', JStr (now @ ''Z''))];
          record = set_if_truthy ''description'' description record;
          record = set_if_truthy ''url'' url record;
          record = set_if_truthy ''location'' location record
      in JDict record)"

definition create_collection_catalog_record ::
  "string \<Rightarrow> int \<Rightarrow> string \<Rightarrow> string \<Rightarrow> json \<Rightarrow> json \<Rightarrow> json \<Rightarrow> json" where
  "create_collection_catalog_record now nara_naid collection_identifier title date_range
       stats_arg full_metadata =
     (let record = [(''schema'', JStr ''nara-collection@v1''),
                    (''nara_naId'', JInt nara_naid),
                    (''collection_identifier'', JStr collection_identifier),
                    (''title'', JStr title),
                    (''date_range'', date_range),
                    (''import_timestamp'', JStr (now @ ''Z''))];
          record = set_if_truthy ''stats'' stats_arg record;
          record = set_if_truthy ''nara_full_metadata'' full_metadata record
      in JDict record)"

definition create_series_catalog_record ::
  "string \<Rightarrow> int \<Rightarrow> int \<Rightarrow> string \<Rightarrow> json \<Rightarrow> json \<Rightarrow> json \<Rightarrow> json" where
  "create_series_catalog_record now nara_naid parent_naid title date_range creators full_metadata =
     (let record = [(''schema'', JStr ''nara-series@v1''),
                    (''nara_naId'', JInt nara_naid),
                    (''parent_naId'', JInt parent_naid),
                    (''title'', JStr title),
                    (''date_range'', date_range),
                    (''import_timestamp'', JStr (now @ ''Z''))];
          record = set_if_truthy ''creators'' creators record;
          record = set_if_truthy ''nara_full_metadata'' full_metadata record
      in JDict record)"

definition create_fileunit_catalog_record ::
  "string \<Rightarrow> int \<Rightarrow> int \<Rightarrow> int \<Rightarrow> string \<Rightarrow> json \<Rightarrow> int \<Rightarrow> json \<Rightarrow> json \<Rightarrow> json \<Rightarrow> json \<Rightarrow> json \<Rightarrow> json" where
  "create_fileunit_catalog_record now nara_naid parent_naid collection_naid title record_types
       digital_object_count access_restriction foia_tracking physical_location other_titles
       full_metadata =
     (let record = [(''schema'', JStr ''nara-fileunit@v1''),
                    (''nara_naId'', JInt nara_naid),
                    (''parent_naId'', JInt parent_naid),
                    (''collection_naId'', JInt collection_naid),
                    (''title'', JStr title),
                    (''level'', JStr ''fileUnit''),
                    (''record_types'', record_types),
                    (''digital_object_count'', JInt digital_object_count),
                    (''import_timestamp'', JStr (now @ ''Z''))];
          record = set_if_truthy ''access_restriction'' access_restriction record;
          record = set_if_truthy ''foia_tracking'' foia_tracking record;
          record = set_if_truthy ''physical_location'' physical_location record;
          record = set_if_truthy ''other_titles'' other_titles record;
          record = set_if_truthy ''nara_full_metadata'' full_metadata record
      in JDict record)"

definition create_digitalobject_catalog_record ::
  "string \<Rightarrow> string \<Rightarrow> int \<Rightarrow> string \<Rightarrow> string \<Rightarrow> string \<Rightarrow> json \<Rightarrow> int \<Rightarrow> int option \<Rightarrow> string option \<Rightarrow> json \<Rightarrow> json" where
  "create_digitalobject_catalog_record now nara_object_id parent_naid filename object_type s3_url
       content_hash file_size page_number extracted_text full_metadata =
     (let record = [(''schema'', JStr ''nara-digitalobject@v1''),
                    (''nara_objectId'', JStr nara_object_id),
                    (''parent_naId'', JInt parent_naid),
                    (''filename'', JStr filename),
                    (''object_type'', JStr object_type),
                    (''file_size'', JInt file_size),
                    (''s3_url'', JStr s3_url),
                    (''content_hash'', content_hash),
                    (''import_timestamp'', JStr (now @ ''Z''))];
          record = (case page_number of None \<Rightarrow> record
                    | Some p \<Rightarrow> AList.update ''page_number'' (JInt p) record);
          record = set_if_truthy ''extracted_text'' (opt_str extracted_text) record;
          record = set_if_truthy ''nara_full_metadata'' full_metadata record
      in JDict record)"

text \<open>\<^verbatim>\<open>create_content_hash_object\<close> of lib/nara\_hash\_utils.py.\<close>

definition create_content_hash_object :: "string \<Rightarrow> string \<Rightarrow> json" where
  "create_content_hash_object digest_hex algorithm =
     JDict [(''algorithm'', JStr algorithm), (''digest_hex'', JStr digest_hex)]"


section \<open>lib/nara\_importer.py\<close>

record stats =
  institutions_created :: nat
  collections_created :: nat
  series_created :: nat
  fileunits_created :: nat
  digitalobjects_created :: nat
  bytes_hashed :: nat
  errors :: nat

definition zero_stats :: stats where
  "zero_stats = \<lparr>institutions_created = 0, collections_created = 0, series_created = 0,
                  fileunits_created = 0, digitalobjects_created = 0, bytes_hashed = 0,
                  errors = 0\<rparr>"

text \<open>
  Every call that leaves the process is recorded, in order: the three store operations
  the importer uses and the download of an asset.
\<close>

datatype ext_call =
    UploadJson json
  | GetArkeBlock
  | CreateEntity "(string \<times> string) list" "string option" string
  | Download string

text \<open>Reading the trace: the entity creations, and the documents that were uploaded.\<close>

fun is_create_entity :: "ext_call \<Rightarrow> bool" where
  "is_create_entity (CreateEntity components parent_pi note) = True"
| "is_create_entity c = False"

fun uploaded :: "ext_call list \<Rightarrow> json list" where
  "uploaded [] = []"
| "uploaded (UploadJson data # cs) = data # uploaded cs"
| "uploaded (c # cs) = uploaded cs"

text \<open>\<^verbatim>\<open>d.get(k)\<close> on a JSON object, \<open>None\<close> when the key is absent.\<close>

fun json_field :: "json \<Rightarrow> string \<Rightarrow> json option" where
  "json_field (JDict kvs) k = map_of kvs k"
| "json_field j k = None"

record entity_result =
  er_pi :: string
  er_ver :: int

text \<open>
  Modelled from the spec: the entity store adapter \<^verbatim>\<open>self.api\<close> of the importer.  The
  importer imports it from lib/arke\_api\_client.py, which is not among the sources; it
  calls \<^verbatim>\<open>upload_json(record)\<close>, \<^verbatim>\<open>get_arke_block()\<close> and
  \<^verbatim>\<open>create_entity(components=, parent_pi=, note=)\<close> and reads \<^verbatim>\<open>pi\<close> and \<^verbatim>\<open>ver\<close> of the
  result.  What the store, the network and the clock answer is a parameter: each reply
  may depend on everything that was sent before.
\<close>

record env =
  upload_json_reply :: "ext_call list \<Rightarrow> json \<Rightarrow> py_exn + string"
  get_arke_block_reply :: "ext_call list \<Rightarrow> py_exn + string"
  create_entity_reply ::
    "ext_call list \<Rightarrow> (string \<times> string) list \<Rightarrow> string option \<Rightarrow> string \<Rightarrow> py_exn + entity_result"
  download_reply :: "ext_call list \<Rightarrow> string \<Rightarrow> remote"
  utcnow :: "ext_call list \<Rightarrow> string"

text \<open>The importer object, together with the trace of its external calls.\<close>

record importer =
  imp_collection_id :: string
  dry_run :: bool
  nara_to_pi :: "string \<rightharpoonup> string"
  institution_pi :: "string option"
  stats :: stats
  calls :: "ext_call list"

text \<open>\<^verbatim>\<open>__init__\<close>: \<^verbatim>\<open>initial_mappings or {}\<close>, the given institution PI, all counters zero.\<close>

definition NARAImporter ::
  "string \<Rightarrow> bool \<Rightarrow> (string \<rightharpoonup> string) option \<Rightarrow> string option \<Rightarrow> importer" where
  "NARAImporter collection_id dry initial_mappings inst_pi =
     \<lparr>imp_collection_id = collection_id, dry_run = dry,
      nara_to_pi = (case initial_mappings of None \<Rightarrow> Map.empty | Some m \<Rightarrow> m),
      institution_pi = inst_pi, stats = zero_stats, calls = []\<rparr>"

definition api_upload_json :: "env \<Rightarrow> json \<Rightarrow> importer \<Rightarrow> (py_exn + string) \<times> importer" where
  "api_upload_json ev data st =
     (upload_json_reply ev (calls st) data, st\<lparr>calls := calls st @ [UploadJson data]\<rparr>)"

definition api_get_arke_block :: "env \<Rightarrow> importer \<Rightarrow> (py_exn + string) \<times> importer" where
  "api_get_arke_block ev st =
     (get_arke_block_reply ev (calls st), st\<lparr>calls := calls st @ [GetArkeBlock]\<rparr>)"

definition api_create_entity ::
  "env \<Rightarrow> (string \<times> string) list \<Rightarrow> string option \<Rightarrow> string \<Rightarrow> importer
     \<Rightarrow> (py_exn + entity_result) \<times> importer" where
  "api_create_entity ev components parent_pi note st =
     (create_entity_reply ev (calls st) components parent_pi note,
      st\<lparr>calls := calls st @ [CreateEntity components parent_pi note]\<rparr>)"

definition http_download :: "env \<Rightarrow> string \<Rightarrow> importer \<Rightarrow> remote \<times> importer" where
  "http_download ev url st =
     (download_reply ev (calls st) url, st\<lparr>calls := calls st @ [Download url]\<rparr>)"

text \<open>\<^verbatim>\<open>self.nara_to_pi[nara_id] = pi\<close>: a plain dictionary store.\<close>

definition ledger_record :: "importer \<Rightarrow> string \<Rightarrow> string \<Rightarrow> importer" where
  "ledger_record st nara_id pi = st\<lparr>nara_to_pi := (nara_to_pi st)(nara_id \<mapsto> pi)\<rparr>"

text \<open>\<^verbatim>\<open>if self.institution_pi:\<close> holds for a non-empty string only.\<close>

definition truthy_pi :: "string option \<Rightarrow> bool" where
  "truthy_pi p = (case p of None \<Rightarrow> False | Some s \<Rightarrow> s \<noteq> [])"

definition import_institution ::
  "env \<Rightarrow> string \<Rightarrow> json \<Rightarrow> json \<Rightarrow> json \<Rightarrow> importer \<Rightarrow> (py_exn + string) \<times> importer" where
  "import_institution ev name description url location st =
     (if truthy_pi (institution_pi st) then (Inr (the (institution_pi st)), st)
      else
        let catalog_record =
              create_institution_catalog_record (utcnow ev (calls st)) name description url location
        in
        if dry_run st then (Inr ''dry-run-pi'', st\<lparr>institution_pi := Some ''dry-run-pi''\<rparr>)
        else
          case api_upload_json ev catalog_record st of
            (Inl e, st1) \<Rightarrow> (Inl e, st1)
          | (Inr catalog_cid, st1) \<Rightarrow>
              (case api_get_arke_block ev st1 of (blk, st2) \<Rightarrow>
                 let arke_pi = (case blk of Inl e \<Rightarrow> None | Inr p \<Rightarrow> Some p) in
                 case api_create_entity ev [(''catalog_record'', catalog_cid)] arke_pi
                        (''Institution: '' @ name) st2 of
                   (Inl e, st3) \<Rightarrow> (Inl e, st3)
                 | (Inr result, st3) \<Rightarrow>
                     let pi = er_pi result in
                     (Inr pi,
                      st3\<lparr>institution_pi := Some pi,
                          stats := (stats st3)\<lparr>institutions_created :=
                                     institutions_created (stats st3) + 1\<rparr>\<rparr>)))"

definition import_collection ::
  "env \<Rightarrow> int \<Rightarrow> string \<Rightarrow> json \<Rightarrow> json \<Rightarrow> importer \<Rightarrow> (py_exn + string) \<times> importer" where
  "import_collection ev collection_naid title date_range full_metadata st =
     (let nara_id = py_str collection_naid in
      case nara_to_pi st nara_id of
        Some existing \<Rightarrow> (Inr existing, st)
      | None \<Rightarrow>
          let catalog_record =
                create_collection_catalog_record (utcnow ev (calls st)) collection_naid
                  (imp_collection_id st) title date_range JNull full_metadata
          in
          if dry_run st
          then (Inr ''dry-run-pi'', ledger_record st nara_id ''dry-run-pi'')
          else
            case api_upload_json ev catalog_record st of
              (Inl e, st1) \<Rightarrow> (Inl e, st1)
            | (Inr catalog_cid, st1) \<Rightarrow>
                (case api_create_entity ev [(''catalog_record'', catalog_cid)] (institution_pi st1)
                        (''Collection: '' @ title @ '' (naId:'' @ py_str collection_naid @ '')'') st1 of
                   (Inl e, st2) \<Rightarrow> (Inl e, st2)
                 | (Inr result, st2) \<Rightarrow>
                     let pi = er_pi result in
                     (Inr pi,
                      (ledger_record st2 nara_id pi)\<lparr>stats := (stats st2)\<lparr>collections_created :=
                                     collections_created (stats st2) + 1\<rparr>\<rparr>)))"

definition import_series ::
  "env \<Rightarrow> int \<Rightarrow> int \<Rightarrow> string \<Rightarrow> json \<Rightarrow> json \<Rightarrow> json \<Rightarrow> importer
     \<Rightarrow> (py_exn + string) \<times> importer" where
  "import_series ev series_naid parent_naid title date_range creators full_metadata st =
     (let nara_id = py_str series_naid in
      case nara_to_pi st nara_id of
        Some existing \<Rightarrow> (Inr existing, st)
      | None \<Rightarrow>
          let catalog_record =
                create_series_catalog_record (utcnow ev (calls st)) series_naid parent_naid title
                  date_range creators full_metadata
          in
          if dry_run st
          then (Inr ''dry-run-pi'', ledger_record st nara_id ''dry-run-pi'')
          else
            case api_upload_json ev catalog_record st of
              (Inl e, st1) \<Rightarrow> (Inl e, st1)
            | (Inr catalog_cid, st1) \<Rightarrow>
                let parent_pi = nara_to_pi st1 (py_str parent_naid) in
                (case api_create_entity ev [(''catalog_record'', catalog_cid)] parent_pi
                        (''Series: '' @ title @ '' (naId:'' @ py_str series_naid @ '')'') st1 of
                   (Inl e, st2) \<Rightarrow> (Inl e, st2)
                 | (Inr result, st2) \<Rightarrow>
                     let pi = er_pi result in
                     (Inr pi,
                      (ledger_record st2 nara_id pi)\<lparr>stats := (stats st2)\<lparr>series_created :=
                                     series_created (stats st2) + 1\<rparr>\<rparr>)))"

text \<open>\<^verbatim>\<open>file_size or actual_size\<close>: the declared size unless it is \<^verbatim>\<open>None\<close> or zero.\<close>

definition file_size_or :: "int option \<Rightarrow> nat \<Rightarrow> int" where
  "file_size_or file_size actual_size =
     (if truthy (opt_int file_size) then the file_size else int actual_size)"

definition import_digitalobject ::
  "env \<Rightarrow> string \<Rightarrow> int \<Rightarrow> string \<Rightarrow> string \<Rightarrow> string \<Rightarrow> int option \<Rightarrow> int option
     \<Rightarrow> string option \<Rightarrow> json \<Rightarrow> importer \<Rightarrow> (py_exn + string) \<times> importer" where
  "import_digitalobject ev object_id parent_naid filename object_type s3_url file_size page_number
       extracted_text full_metadata st =
     (case nara_to_pi st object_id of
        Some existing \<Rightarrow> (Inr existing, st)
      | None \<Rightarrow>
          if dry_run st
          then (Inr ''dry-run-pi'', ledger_record st object_id ''dry-run-pi'')
          else
            case http_download ev s3_url st of (r, st1) \<Rightarrow>
            (case download_and_hash_s3 r of
               Inl e \<Rightarrow> (Inl e, st1\<lparr>stats := (stats st1)\<lparr>errors := errors (stats st1) + 1\<rparr>\<rparr>)
             | Inr (hash_hex, actual_size) \<Rightarrow>
                 let content_hash = create_content_hash_object hash_hex ''sha256'';
                     st2 = st1\<lparr>stats := (stats st1)\<lparr>bytes_hashed :=
                                   bytes_hashed (stats st1) + actual_size\<rparr>\<rparr>;
                     catalog_record =
                       create_digitalobject_catalog_record (utcnow ev (calls st2)) object_id
                         parent_naid filename object_type s3_url content_hash
                         (file_size_or file_size actual_size) page_number extracted_text
                         full_metadata
                 in
                 case api_upload_json ev catalog_record st2 of
                   (Inl e, st3) \<Rightarrow> (Inl e, st3)
                 | (Inr catalog_cid, st3) \<Rightarrow>
                     let parent_pi = nara_to_pi st3 (py_str parent_naid) in
                     (case api_create_entity ev [(''digital_object_metadata'', catalog_cid)]
                             parent_pi
                             (''Page '' @ py_str_opt page_number @ '': '' @ filename
                                @ '' (objectId:'' @ object_id @ '')'') st3 of
                        (Inl e, st4) \<Rightarrow> (Inl e, st4)
                      | (Inr result, st4) \<Rightarrow>
                          let pi = er_pi result in
                          (Inr pi,
                           (ledger_record st4 object_id pi)\<lparr>stats := (stats st4)\<lparr>digitalobjects_created :=
                                          digitalobjects_created (stats st4) + 1\<rparr>\<rparr>))))"

text \<open>
  One entry of \<^verbatim>\<open>digitalObjects\<close>: the entry as it was parsed, and what the reads of it
  return.  The four fields read with \<^verbatim>\<open>obj[...]\<close> are \<open>None\<close> when the key is missing (a
  \<^verbatim>\<open>KeyError\<close>); the two read with \<^verbatim>\<open>obj.get(...)\<close> are \<open>None\<close> when missing or null.
  The whole entry is what \<^verbatim>\<open>full_metadata=obj\<close> passes on.
\<close>

record digital_object =
  entry :: json
  objectId :: "string option"
  objectFilename :: "string option"
  objectType :: "string option"
  objectUrl :: "string option"
  objectFileSize :: "int option"
  extractedText :: "string option"

definition getitem :: "string \<Rightarrow> 'a option \<Rightarrow> py_exn + 'a" where
  "getitem k v = (case v of None \<Rightarrow> Inl (KeyError k) | Some x \<Rightarrow> Inr x)"

text \<open>The body of the \<^verbatim>\<open>try\<close> in the loop of \<^verbatim>\<open>import_fileunit\<close>.\<close>

definition import_object_entry ::
  "env \<Rightarrow> int \<Rightarrow> int \<Rightarrow> digital_object \<Rightarrow> importer \<Rightarrow> (py_exn + string) \<times> importer" where
  "import_object_entry ev fileunit_naid i obj st =
     (case getitem ''objectId'' (objectId obj) of
        Inl e \<Rightarrow> (Inl e, st)
      | Inr object_id \<Rightarrow>
     (case getitem ''objectFilename'' (objectFilename obj) of
        Inl e \<Rightarrow> (Inl e, st)
      | Inr filename \<Rightarrow>
     (case getitem ''objectType'' (objectType obj) of
        Inl e \<Rightarrow> (Inl e, st)
      | Inr object_type \<Rightarrow>
     (case getitem ''objectUrl'' (objectUrl obj) of
        Inl e \<Rightarrow> (Inl e, st)
      | Inr s3_url \<Rightarrow>
          import_digitalobject ev object_id fileunit_naid filename object_type s3_url
            (objectFileSize obj) (Some i) (extractedText obj) (entry obj) st))))"

text \<open>
  \<^verbatim>\<open>for i, obj in enumerate(digital_objects, start=1)\<close> with its \<^verbatim>\<open>except Exception\<close>:
  a failed entry adds one to \<^verbatim>\<open>errors\<close> and the loop goes on.
\<close>

fun import_objects :: "env \<Rightarrow> int \<Rightarrow> int \<Rightarrow> digital_object list \<Rightarrow> importer \<Rightarrow> importer" where
  "import_objects ev fileunit_naid i [] st = st"
| "import_objects ev fileunit_naid i (obj # rest) st =
     (case import_object_entry ev fileunit_naid i obj st of
        (Inl e, st1) \<Rightarrow>
          import_objects ev fileunit_naid (i + 1) rest
            (st1\<lparr>stats := (stats st1)\<lparr>errors := errors (stats st1) + 1\<rparr>\<rparr>)
      | (Inr obj_pi, st1) \<Rightarrow> import_objects ev fileunit_naid (i + 1) rest st1)"

definition import_fileunit ::
  "env \<Rightarrow> int \<Rightarrow> int \<Rightarrow> int \<Rightarrow> string \<Rightarrow> json \<Rightarrow> digital_object list \<Rightarrow> json \<Rightarrow> json \<Rightarrow> json
     \<Rightarrow> json \<Rightarrow> json \<Rightarrow> importer \<Rightarrow> (py_exn + string) \<times> importer" where
  "import_fileunit ev fileunit_naid parent_series_naid collection_naid title record_types
       digital_objects access_restriction foia_tracking physical_location other_titles
       full_metadata st =
     (let nara_id = py_str fileunit_naid in
      case nara_to_pi st nara_id of
        Some existing \<Rightarrow> (Inr existing, st)
      | None \<Rightarrow>
          let catalog_record =
                create_fileunit_catalog_record (utcnow ev (calls st)) fileunit_naid
                  parent_series_naid collection_naid title record_types
                  (int (length digital_objects)) access_restriction foia_tracking
                  physical_location other_titles full_metadata
          in
          if dry_run st
          then (Inr ''dry-run-pi'', ledger_record st nara_id ''dry-run-pi'')
          else
            case api_upload_json ev catalog_record st of
              (Inl e, st1) \<Rightarrow> (Inl e, st1)
            | (Inr catalog_cid, st1) \<Rightarrow>
                let parent_pi = nara_to_pi st1 (py_str parent_series_naid) in
                (case api_create_entity ev [(''catalog_record'', catalog_cid)] parent_pi
                        (''FileUnit: '' @ title @ '' (naId:'' @ py_str fileunit_naid @ '', ''
                           @ py_str (int (length digital_objects)) @ '' pages)'') st1 of
                   (Inl e, st2) \<Rightarrow> (Inl e, st2)
                 | (Inr result, st2) \<Rightarrow>
                     let pi = er_pi result;
                         st3 = (ledger_record st2 nara_id pi)\<lparr>stats := (stats st2)\<lparr>fileunits_created :=
                                             fileunits_created (stats st2) + 1\<rparr>\<rparr>
                     in (Inr pi, import_objects ev fileunit_naid 1 digital_objects st3)))"

text \<open>
  Between two records a run touches the importer only through its operations:
  \<^verbatim>\<open>import_record\<close> calls \<^verbatim>\<open>import_collection\<close>, \<^verbatim>\<open>import_series\<close> and
  \<^verbatim>\<open>import_fileunit\<close> (which calls \<^verbatim>\<open>import_digitalobject\<close>), \<^verbatim>\<open>main\<close> calls
  \<^verbatim>\<open>import_institution\<close>, and an exception is caught by the handler of the record loop,
  which leaves the importer as the failed call left it.  So what happens between two
  calls is a sequence of such calls, with any arguments.
\<close>

datatype import_call =
    CallInstitution string json json json
  | CallCollection int string json json
  | CallSeries int int string json json json
  | CallFileunit int int int string json "digital_object list" json json json json json
  | CallDigitalObject string int string string string "int option" "int option" "string option" json

fun perform :: "env \<Rightarrow> import_call \<Rightarrow> importer \<Rightarrow> (py_exn + string) \<times> importer" where
  "perform ev (CallInstitution name description url location) st =
     import_institution ev name description url location st"
| "perform ev (CallCollection collection_naid title date_range full_metadata) st =
     import_collection ev collection_naid title date_range full_metadata st"
| "perform ev (CallSeries series_naid parent_naid title date_range creators full_metadata) st =
     import_series ev series_naid parent_naid title date_range creators full_metadata st"
| "perform ev (CallFileunit fileunit_naid parent_series_naid collection_naid title record_types
       digital_objects access_restriction foia_tracking physical_location other_titles
       full_metadata) st =
     import_fileunit ev fileunit_naid parent_series_naid collection_naid title record_types
       digital_objects access_restriction foia_tracking physical_location other_titles
       full_metadata st"
| "perform ev (CallDigitalObject object_id parent_naid filename object_type s3_url file_size
       page_number extracted_text full_metadata) st =
     import_digitalobject ev object_id parent_naid filename object_type s3_url file_size
       page_number extracted_text full_metadata st"

fun perform_all :: "env \<Rightarrow> import_call list \<Rightarrow> importer \<Rightarrow> importer" where
  "perform_all ev [] st = st"
| "perform_all ev (c # cs) st = perform_all ev cs (snd (perform ev c st))"


section \<open>import\_full\_collection.py and import\_limited.py: the checkpoint file\<close>

text \<open>
  The checkpoint file holds one JSON object.  Its values are integers, strings, null, or
  the table from source ids to store ids; \<^verbatim>\<open>json.dump\<close> followed by \<^verbatim>\<open>json.load\<close>
  returns such an object unchanged.  A file that does not exist is \<open>None\<close>.
\<close>

datatype cval = CInt int | CStr string | CNull | CMap "string \<rightharpoonup> string"

type_synonym checkpoint = "(string \<times> cval) list"

text \<open>\<^verbatim>\<open>save_checkpoint\<close> of import\_full\_collection.py; \<open>now\<close> is \<^verbatim>\<open>datetime.now().isoformat()\<close>.\<close>

definition save_checkpoint_full :: "string \<Rightarrow> int \<Rightarrow> int \<Rightarrow> checkpoint option" where
  "save_checkpoint_full now file_number record_index =
     Some [(''file_number'', CInt file_number),
           (''record_index'', CInt record_index),
           (''timestamp'', CStr now)]"

definition load_checkpoint_full :: "checkpoint option \<Rightarrow> checkpoint" where
  "load_checkpoint_full file =
     (case file of
        Some doc \<Rightarrow> doc
      | None \<Rightarrow> [(''file_number'', CInt 1), (''record_index'', CInt 0)])"

text \<open>\<^verbatim>\<open>save_checkpoint\<close> and \<^verbatim>\<open>load_checkpoint\<close> of import\_limited.py.\<close>

definition save_checkpoint_limited :: "string \<Rightarrow> int \<Rightarrow> int \<Rightarrow> importer \<Rightarrow> checkpoint option" where
  "save_checkpoint_limited now file_number record_index imp =
     Some [(''file_number'', CInt file_number),
           (''record_index'', CInt record_index),
           (''timestamp'', CStr now),
           (''nara_to_pi'', CMap (nara_to_pi imp)),
           (''institution_pi'', (case institution_pi imp of None \<Rightarrow> CNull | Some p \<Rightarrow> CStr p))]"

definition load_checkpoint_limited :: "checkpoint option \<Rightarrow> checkpoint" where
  "load_checkpoint_limited file =
     (case file of
        Some doc \<Rightarrow>
          let checkpoint = doc;
              checkpoint = (if ''nara_to_pi'' \<notin> set (map fst checkpoint)
                            then AList.update ''nara_to_pi'' (CMap Map.empty) checkpoint
                            else checkpoint);
              checkpoint = (if ''institution_pi'' \<notin> set (map fst checkpoint)
                            then AList.update ''institution_pi'' CNull checkpoint
                            else checkpoint)
          in checkpoint
      | None \<Rightarrow> [(''file_number'', CInt 1), (''record_index'', CInt 0),
                 (''nara_to_pi'', CMap Map.empty), (''institution_pi'', CNull)])"

text \<open>
  The start of \<^verbatim>\<open>main\<close>: the position to resume from and the importer that is
  constructed.  import\_limited.py passes the table and the institution id of the
  checkpoint to the constructor; import\_full\_collection.py constructs the importer
  before it reads the checkpoint, without either.
\<close>

definition ckpt_int :: "checkpoint \<Rightarrow> string \<Rightarrow> py_exn + int" where
  "ckpt_int c k = (case map_of c k of Some (CInt i) \<Rightarrow> Inr i | Some v \<Rightarrow> Inl TypeError
                   | None \<Rightarrow> Inl (KeyError k))"

definition ckpt_table :: "checkpoint \<Rightarrow> (string \<rightharpoonup> string) option" where
  "ckpt_table c = (case map_of c ''nara_to_pi'' of Some (CMap m) \<Rightarrow> Some m | _ \<Rightarrow> None)"

definition ckpt_institution :: "checkpoint \<Rightarrow> string option" where
  "ckpt_institution c = (case map_of c ''institution_pi'' of Some (CStr p) \<Rightarrow> Some p | _ \<Rightarrow> None)"

definition resume_limited :: "checkpoint option \<Rightarrow> py_exn + int \<times> int \<times> importer" where
  "resume_limited file =
     (let checkpoint = load_checkpoint_limited file in
      case ckpt_int checkpoint ''file_number'' of
        Inl e \<Rightarrow> Inl e
      | Inr start_file \<Rightarrow>
          (case ckpt_int checkpoint ''record_index'' of
             Inl e \<Rightarrow> Inl e
           | Inr start_record_index \<Rightarrow>
               Inr (start_file, start_record_index,
                    NARAImporter ''WJC-NSCSW'' False (ckpt_table checkpoint)
                      (ckpt_institution checkpoint))))"

definition resume_full :: "checkpoint option \<Rightarrow> py_exn + int \<times> int \<times> importer" where
  "resume_full file =
     (let imp = NARAImporter ''WJC-NSCSW'' False None None;
          checkpoint = load_checkpoint_full file in
      case ckpt_int checkpoint ''file_number'' of
        Inl e \<Rightarrow> Inl e
      | Inr start_file \<Rightarrow>
          (case ckpt_int checkpoint ''record_index'' of
             Inl e \<Rightarrow> Inl e
           | Inr start_record_index \<Rightarrow> Inr (start_file, start_record_index, imp)))"


section \<open>A concrete store, network and clock for the scenarios\<close>

text \<open>
  Every upload and every creation succeeds; the store names a new entity after the note
  of its creation call; every asset has the three bytes 1, 2, 3, except that the
  download of \<^verbatim>\<open>s3://bucket/page3.jpg\<close> always fails.
\<close>

definition demo_env :: env where
  "demo_env =
     \<lparr>upload_json_reply = (\<lambda>log data. Inr ''bafy-cid''),
      get_arke_block_reply = (\<lambda>log. Inr ''01ARKE''),
      create_entity_reply =
        (\<lambda>log components parent_pi note. Inr \<lparr>er_pi = ''pi/'' @ note, er_ver = 1\<rparr>),
      download_reply =
        (\<lambda>log url. if url = ''s3://bucket/page3.jpg'' then RequestFailed
                    else Response 200 [[1, 2, 3]] True),
      utcnow = (\<lambda>log. ''2025-01-01T00:00:00'')\<rparr>"

definition demo_object :: "string \<Rightarrow> digital_object" where
  "demo_object n =
     \<lparr>entry = JDict [(''objectId'', JStr (''obj'' @ n)),
                     (''objectFilename'', JStr (''page'' @ n @ ''.jpg'')),
                     (''objectType'', JStr ''Image (JPG)''),
                     (''objectUrl'', JStr (''s3://bucket/page'' @ n @ ''.jpg''))],
      objectId = Some (''obj'' @ n), objectFilename = Some (''page'' @ n @ ''.jpg''),
      objectType = Some ''Image (JPG)'', objectUrl = Some (''s3://bucket/page'' @ n @ ''.jpg''),
      objectFileSize = None, extractedText = None\<rparr>"

definition five_assets :: "digital_object list" where
  "five_assets = map demo_object [''1'', ''2'', ''3'', ''4'', ''5'']"

text \<open>The same store, except that its first entity creation fails.\<close>

definition flaky_env :: env where
  "flaky_env =
     demo_env\<lparr>create_entity_reply :=
       (\<lambda>log components parent_pi note.
          if filter is_create_entity log = [] then Inl ArkeAPIError
          else Inr \<lparr>er_pi = ''pi/'' @ note, er_ver = 1\<rparr>)\<rparr>"

text \<open>A fresh importer of a real run, the institution already created.\<close>

definition demo_importer :: importer where
  "demo_importer = NARAImporter ''WJC-NSCSW'' False None (Some ''01INST'')"

text \<open>A content-addressed store: the address is derived from the posted bytes.\<close>

definition demo_store :: "byte list \<Rightarrow> upload_reply" where
  "demo_store data = UploadReply 200 (''bafy'' @ sha256_hex data) (length data)"


section \<open>Facts about splitting and joining\<close>

lemma split_on_nonempty: "split_on c s \<noteq> []"
  by (induction s) (auto split: list.splits)

lemma split_on_no_sep: "c \<notin> set s \<Longrightarrow> split_on c s = [s]"
  by (induction s) auto

lemma split_on_append: "split_on c (a @ c # b) = split_on c a @ split_on c b"
  by (induction a) (auto split: list.splits simp: split_on_nonempty)

lemma join_split_on: "join_with c (split_on c s) = s"
proof (induction s)
  case Nil
  show ?case by simp
next
  case (Cons x xs)
  show ?case
  proof (cases "x = c")
    case True
    obtain p ps where "split_on c xs = p # ps"
      using split_on_nonempty [of c xs] by (cases "split_on c xs") auto
    with Cons True show ?thesis by simp
  next
    case False
    obtain p ps where eq: "split_on c xs = p # ps"
      using split_on_nonempty [of c xs] by (cases "split_on c xs") auto
    with Cons False show ?thesis by (cases ps) auto
  qed
qed

lemma length_split_on_sep: "c \<in> set s \<Longrightarrow> 2 \<le> length (split_on c s)"
proof (induction s)
  case Nil
  then show ?case by simp
next
  case (Cons x xs)
  obtain p ps where eq: "split_on c xs = p # ps"
    using split_on_nonempty [of c xs] by (cases "split_on c xs") auto
  show ?case
  proof (cases "x = c")
    case True
    with eq show ?thesis by simp
  next
    case False
    with Cons have "2 \<le> length (split_on c xs)" by simp
    with False eq show ?thesis by simp
  qed
qed

lemma length_split_on_no_sep: "c \<notin> set s \<Longrightarrow> length (split_on c s) = 1"
  by (simp add: split_on_no_sep)

section \<open>Round trip between the semantic identifier and the parser\<close>

lemma split_on_pi:
  assumes "CHR ''-'' \<notin> set ty" "CHR ''-'' \<notin> set n" "CHR ''-'' \<notin> set u"
  shows "split_on CHR ''-'' (''NARA-'' @ cid @ ''-'' @ ty @ ''-'' @ n @ ''-'' @ u)
         = ''NARA'' # split_on CHR ''-'' cid @ [ty, n, u]"
proof -
  have a: "split_on CHR ''-'' (n @ CHR ''-'' # u) = [n, u]"
    using assms by (simp add: split_on_append split_on_no_sep)
  have b: "split_on CHR ''-'' (ty @ CHR ''-'' # n @ CHR ''-'' # u) = [ty, n, u]"
    using assms a by (simp add: split_on_append split_on_no_sep)
  have c: "split_on CHR ''-'' (cid @ CHR ''-'' # ty @ CHR ''-'' # n @ CHR ''-'' # u)
           = split_on CHR ''-'' cid @ [ty, n, u]"
    using b by (simp add: split_on_append)
  have d: "split_on CHR ''-'' (''NARA'' @ CHR ''-'' # cid @ CHR ''-'' # ty @ CHR ''-'' # n @ CHR ''-'' # u)
           = split_on CHR ''-'' ''NARA'' @ split_on CHR ''-'' cid @ [ty, n, u]"
    using c by (simp only: split_on_append)
  have e: "split_on CHR ''-'' ''NARA'' = [''NARA'']"
    by (simp add: split_on_no_sep)
  show ?thesis using d e by simp
qed

text \<open>
  Claim C8 (amended).  For every collection id that contains at least one hyphen, every
  entity type among COL, SER, FILE, OBJ, and every hyphen-free nara id and ulid,
  \<open>parse_pi\<close> applied to \<open>generate_semantic_id collection_id entity_type nara_id\<close>
  followed by a hyphen and the ulid returns exactly the prefix NARA and those four
  components, and \<open>is_valid_pi\<close> accepts the string.
\<close>

theorem parse_pi_roundtrip:
  assumes "CHR ''-'' \<in> set collection_id"
    and "entity_type \<in> set valid_types"
    and "CHR ''-'' \<notin> set (format_nara_id nid)"
    and "CHR ''-'' \<notin> set ulid"
  shows "parse_pi (generate_semantic_id collection_id entity_type nid @ ''-'' @ ulid)
           = Inr \<lparr>pp_prefix = ''NARA'', pp_collection_id = collection_id,
                   pp_entity_type = entity_type, pp_nara_id = format_nara_id nid,
                   pp_ulid = ulid\<rparr>
         \<and> is_valid_pi (generate_semantic_id collection_id entity_type nid @ ''-'' @ ulid)"
proof -
  let ?n = "format_nara_id nid"
  let ?cs = "split_on CHR ''-'' collection_id"
  let ?k = "length ?cs"
  have ty: "CHR ''-'' \<notin> set entity_type"
    using assms(2) by (auto simp: valid_types_def)
  have parts: "split_on CHR ''-'' (generate_semantic_id collection_id entity_type nid @ ''-'' @ ulid)
               = ''NARA'' # ?cs @ [entity_type, ?n, ulid]"
    using split_on_pi [OF ty assms(3) assms(4), of collection_id]
    by (simp add: generate_semantic_id_def)
  have k: "2 \<le> ?k" using assms(1) by (rule length_split_on_sep)
  have len: "length (''NARA'' # ?cs @ [entity_type, ?n, ulid]) = ?k + 4" by simp
  have i3: "(''NARA'' # ?cs @ [entity_type, ?n, ulid]) ! (?k + 4 - 3) = entity_type"
    by (simp add: nth_append)
  have i2: "(''NARA'' # ?cs @ [entity_type, ?n, ulid]) ! (?k + 4 - 2) = ?n"
    by (simp add: nth_append nth_Cons')
  have i1: "(''NARA'' # ?cs @ [entity_type, ?n, ulid]) ! (?k + 4 - 1) = ulid"
    by (simp add: nth_append nth_Cons')
  have sl: "drop 1 (take (?k + 4 - 3) (''NARA'' # ?cs @ [entity_type, ?n, ulid])) = ?cs"
    by simp
  have res: "parse_pi (generate_semantic_id collection_id entity_type nid @ ''-'' @ ulid)
           = Inr \<lparr>pp_prefix = ''NARA'', pp_collection_id = collection_id,
                   pp_entity_type = entity_type, pp_nara_id = ?n, pp_ulid = ulid\<rparr>"
    unfolding parse_pi_def parts Let_def len i3 i2 i1 sl join_split_on
    using k assms(2) by simp
  then show ?thesis by (simp add: is_valid_pi_def)
qed

theorem parse_pi_roundtrip_witness:
  "parse_pi (''NARA-WJC-NSCSW-FILE-23902919-01JABBCCDDEEFFGGHHKKMMNNPP'')
     = Inr \<lparr>pp_prefix = ''NARA'', pp_collection_id = ''WJC-NSCSW'',
             pp_entity_type = ''FILE'', pp_nara_id = ''23902919'',
             pp_ulid = ''01JABBCCDDEEFFGGHHKKMMNNPP''\<rparr>
   \<and> is_valid_pi ''NARA-WJC-NSCSW-FILE-23902919-01JABBCCDDEEFFGGHHKKMMNNPP''"
  using parse_pi_roundtrip [of "''WJC-NSCSW''" "''FILE''" "NaraStr ''23902919''"
      "''01JABBCCDDEEFFGGHHKKMMNNPP''"]
  by (simp add: valid_types_def generate_semantic_id_def)

text \<open>
  Claim C8 as stated fails for a collection id without a hyphen: the string then has
  only five hyphen-separated parts and the length guard of \<open>parse_pi\<close> rejects it.
\<close>

theorem parse_pi_roundtrip_counterexample:
  "parse_pi (generate_semantic_id ''ABC'' ''COL'' (NaraStr ''123'') @ ''-'' @ ''01J'') = Inl ValueError
   \<and> \<not> is_valid_pi (generate_semantic_id ''ABC'' ''COL'' (NaraStr ''123'') @ ''-'' @ ''01J'')"
  by (simp add: parse_pi_def is_valid_pi_def generate_semantic_id_def)


section \<open>Evaluating \<open>py_str\<close> on numerals\<close>

lemma nat_digits_numeral:
  "nat_digits (numeral k) =
     (if (numeral k :: nat) < 10 then [digit_char (numeral k)]
      else nat_digits (numeral k div 10) @ [digit_char (numeral k mod 10)])"
  by (rule nat_digits.simps)

lemma nat_digits_small: "nat_digits 0 = ''0''" "nat_digits 1 = ''1''" "nat_digits (Suc 0) = ''1''"
  by (subst nat_digits.simps, simp add: digit_char_def)+

lemmas py_str_eval = py_str_def nat_digits_numeral nat_digits_small digit_char_def

lemma py_str_example: "py_str 7388842 = ''7388842''" "py_str (- 5) = ''-5''" "py_str 10 = ''10''"
  by (simp_all add: py_str_eval)



section \<open>Evaluating SHA-256 on the twelve bytes of \<^verbatim>\<open>hello world!\<close>\<close>

lemma replicate_num: "replicate (numeral k) x = x # replicate (pred_numeral k) x"
  by (simp add: numeral_eq_Suc)

lemma chunks_of_num:
  "chunks_of (numeral k) (x # xs) =
     take (numeral k) (x # xs) # chunks_of (numeral k) (drop (numeral k) (x # xs))"
  "chunks_of n [] = []"
  by (simp_all add: chunks_of.simps)

lemma hello_bytes:
  "bytes_of ''hello world!'' = [104, 101, 108, 108, 111, 32, 119, 111, 114, 108, 100, 33]"
  by (simp add: bytes_of_def)

lemma hello_pad:
  "sha256_pad [104, 101, 108, 108, 111, 32, 119, 111, 114, 108, 100, 33] =
    [0x00000068, 0x00000065, 0x0000006c, 0x0000006c, 0x0000006f, 0x00000020, 0x00000077, 0x0000006f, 0x00000072, 0x0000006c, 0x00000064, 0x00000021, 0x00000080, 0, 0, 0, 0, 0, 0, 0, 0, 0, 0, 0, 0, 0, 0, 0, 0, 0, 0, 0, 0, 0, 0, 0, 0, 0, 0, 0, 0, 0, 0, 0, 0, 0, 0, 0, 0, 0, 0, 0, 0, 0, 0, 0, 0, 0, 0, 0, 0, 0, 0, 0x00000060]"
  by (simp add: sha256_pad_def replicate_num be_bytes8_def)

lemma hello_blocks:
  "chunks_of 64 [0x00000068, 0x00000065, 0x0000006c, 0x0000006c, 0x0000006f, 0x00000020, 0x00000077, 0x0000006f, 0x00000072, 0x0000006c, 0x00000064, 0x00000021, 0x00000080, 0, 0, 0, 0, 0, 0, 0, 0, 0, 0, 0, 0, 0, 0, 0, 0, 0, 0, 0, 0, 0, 0, 0, 0, 0, 0, 0, 0, 0, 0, 0, 0, 0, 0, 0, 0, 0, 0, 0, 0, 0, 0, 0, 0, 0, 0, 0, 0, 0, 0, 0x00000060] =
    [[0x00000068, 0x00000065, 0x0000006c, 0x0000006c, 0x0000006f, 0x00000020, 0x00000077, 0x0000006f, 0x00000072, 0x0000006c, 0x00000064, 0x00000021, 0x00000080, 0, 0, 0, 0, 0, 0, 0, 0, 0, 0, 0, 0, 0, 0, 0, 0, 0, 0, 0, 0, 0, 0, 0, 0, 0, 0, 0, 0, 0, 0, 0, 0, 0, 0, 0, 0, 0, 0, 0, 0, 0, 0, 0, 0, 0, 0, 0, 0, 0, 0, 0x00000060]]"
  by (simp add: chunks_of_num)

lemma hello_words:
  "map be_word (chunks_of 4 [0x00000068, 0x00000065, 0x0000006c, 0x0000006c, 0x0000006f, 0x00000020, 0x00000077, 0x0000006f, 0x00000072, 0x0000006c, 0x00000064, 0x00000021, 0x00000080, 0, 0, 0, 0, 0, 0, 0, 0, 0, 0, 0, 0, 0, 0, 0, 0, 0, 0, 0, 0, 0, 0, 0, 0, 0, 0, 0, 0, 0, 0, 0, 0, 0, 0, 0, 0, 0, 0, 0, 0, 0, 0, 0, 0, 0, 0, 0, 0, 0, 0, 0x00000060]) =
    [0x68656c6c, 0x6f20776f, 0x726c6421, 0x80000000, 0, 0, 0, 0, 0, 0, 0, 0, 0, 0, 0, 0x00000060]"
  by (simp add: chunks_of_num be_word_def)

lemma hello_sched_steps:
  "sigma1 0 + 0 + sigma0 0x6f20776f + 0x68656c6c = (0x37470237 :: u32)"
  "sigma1 0x00000060 + 0 + sigma0 0x726c6421 + 0x6f20776f = (0xc4fd8046 :: u32)"
  "sigma1 0x37470237 + 0 + sigma0 0x80000000 + 0x726c6421 = (0xe4bd30ac :: u32)"
  "sigma1 0xc4fd8046 + 0 + sigma0 0 + 0x80000000 = (0xf01a8581 :: u32)"
  "sigma1 0xe4bd30ac + 0 + sigma0 0 + 0 = (0x3e7ac185 :: u32)"
  "sigma1 0xf01a8581 + 0 + sigma0 0 + 0 = (0x124cc0af :: u32)"
  "sigma1 0x3e7ac185 + 0x00000060 + sigma0 0 + 0 = (0x38fda6a2 :: u32)"
  "sigma1 0x124cc0af + 0x37470237 + sigma0 0 + 0 = (0x2f8dfa96 :: u32)"
  "sigma1 0x38fda6a2 + 0xc4fd8046 + sigma0 0 + 0 = (0x2c88e44e :: u32)"
  "sigma1 0x2f8dfa96 + 0xe4bd30ac + sigma0 0 + 0 = (0x26cf61f5 :: u32)"
  "sigma1 0x2c88e44e + 0xf01a8581 + sigma0 0 + 0 = (0x5ec0776d :: u32)"
  "sigma1 0x26cf61f5 + 0x3e7ac185 + sigma0 0 + 0 = (0x9b4845eb :: u32)"
  "sigma1 0x5ec0776d + 0x124cc0af + sigma0 0 + 0 = (0x47997554 :: u32)"
  "sigma1 0x9b4845eb + 0x38fda6a2 + sigma0 0 + 0 = (0x636c137e :: u32)"
  "sigma1 0x47997554 + 0x2f8dfa96 + sigma0 0x00000060 + 0 = (0x83b74804 :: u32)"
  "sigma1 0x636c137e + 0x2c88e44e + sigma0 0x37470237 + 0x00000060 = (0x605caf20 :: u32)"
  "sigma1 0x83b74804 + 0x26cf61f5 + sigma0 0xc4fd8046 + 0x37470237 = (0xa0409ae2 :: u32)"
  "sigma1 0x605caf20 + 0x5ec0776d + sigma0 0xe4bd30ac + 0xc4fd8046 = (0xefa0081c :: u32)"
  "sigma1 0xa0409ae2 + 0x9b4845eb + sigma0 0xf01a8581 + 0xe4bd30ac = (0x9a8da462 :: u32)"
  "sigma1 0xefa0081c + 0x47997554 + sigma0 0x3e7ac185 + 0xf01a8581 = (0xfabcdf28 :: u32)"
  "sigma1 0x9a8da462 + 0x636c137e + sigma0 0x124cc0af + 0x3e7ac185 = (0x74c95788 :: u32)"
  "sigma1 0xfabcdf28 + 0x83b74804 + sigma0 0x38fda6a2 + 0x124cc0af = (0xb51a9797 :: u32)"
  "sigma1 0x74c95788 + 0x605caf20 + sigma0 0x2f8dfa96 + 0x38fda6a2 = (0x718d8bae :: u32)"
  "sigma1 0xb51a9797 + 0xa0409ae2 + sigma0 0x2c88e44e + 0x2f8dfa96 = (0x89be8666 :: u32)"
  "sigma1 0x718d8bae + 0xefa0081c + sigma0 0x26cf61f5 + 0x2c88e44e = (0xc7d0bd4d :: u32)"
  "sigma1 0x89be8666 + 0x9a8da462 + sigma0 0x5ec0776d + 0x26cf61f5 = (0x21f9da53 :: u32)"
  "sigma1 0xc7d0bd4d + 0xfabcdf28 + sigma0 0x9b4845eb + 0x5ec0776d = (0x77e184b6 :: u32)"
  "sigma1 0x21f9da53 + 0x74c95788 + sigma0 0x47997554 + 0x9b4845eb = (0xe3a635ce :: u32)"
  "sigma1 0x77e184b6 + 0xb51a9797 + sigma0 0x636c137e + 0x47997554 = (0xe3f8dcea :: u32)"
  "sigma1 0xe3a635ce + 0x718d8bae + sigma0 0x83b74804 + 0x636c137e = (0x7cd08ad3 :: u32)"
  "sigma1 0xe3f8dcea + 0x89be8666 + sigma0 0x605caf20 + 0x83b74804 = (0xea49d6cb :: u32)"
  "sigma1 0x7cd08ad3 + 0xc7d0bd4d + sigma0 0xa0409ae2 + 0x605caf20 = (0x744a8cb6 :: u32)"
  "sigma1 0xea49d6cb + 0x21f9da53 + sigma0 0xefa0081c + 0xa0409ae2 = (0xb9ed0a48 :: u32)"
  "sigma1 0x744a8cb6 + 0x77e184b6 + sigma0 0x9a8da462 + 0xefa0081c = (0x3ece7c48 :: u32)"
  "sigma1 0xb9ed0a48 + 0xe3a635ce + sigma0 0xfabcdf28 + 0x9a8da462 = (0x1bdfe7ad :: u32)"
  "sigma1 0x3ece7c48 + 0xe3f8dcea + sigma0 0x74c95788 + 0xfabcdf28 = (0x1beb0c9f :: u32)"
  "sigma1 0x1bdfe7ad + 0x7cd08ad3 + sigma0 0xb51a9797 + 0x74c95788 = (0x9cec4663 :: u32)"
  "sigma1 0x1beb0c9f + 0xea49d6cb + sigma0 0x718d8bae + 0xb51a9797 = (0xb77838ae :: u32)"
  "sigma1 0x9cec4663 + 0x744a8cb6 + sigma0 0x89be8666 + 0x718d8bae = (0x0f6faf0d :: u32)"
  "sigma1 0xb77838ae + 0xb9ed0a48 + sigma0 0xc7d0bd4d + 0x89be8666 = (0x0b41ab32 :: u32)"
  "sigma1 0x0f6faf0d + 0x3ece7c48 + sigma0 0x21f9da53 + 0xc7d0bd4d = (0xfdec37c6 :: u32)"
  "sigma1 0x0b41ab32 + 0x1bdfe7ad + sigma0 0x77e184b6 + 0x21f9da53 = (0x2215c509 :: u32)"
  "sigma1 0xfdec37c6 + 0x1beb0c9f + sigma0 0xe3a635ce + 0x77e184b6 = (0x3db19dd6 :: u32)"
  "sigma1 0x2215c509 + 0x9cec4663 + sigma0 0xe3f8dcea + 0xe3a635ce = (0xd941ff44 :: u32)"
  "sigma1 0x3db19dd6 + 0xb77838ae + sigma0 0x7cd08ad3 + 0xe3f8dcea = (0x24a73a1c :: u32)"
  "sigma1 0xd941ff44 + 0x0f6faf0d + sigma0 0xea49d6cb + 0x7cd08ad3 = (0x4bec35bd :: u32)"
  "sigma1 0x24a73a1c + 0x0b41ab32 + sigma0 0x744a8cb6 + 0xea49d6cb = (0x311c9aa3 :: u32)"
  "sigma1 0x4bec35bd + 0xfdec37c6 + sigma0 0xb9ed0a48 + 0x744a8cb6 = (0xd38f1128 :: u32)"
  by (simp_all add: sigma0_def sigma1_def rotr_def)

lemma expand_num:
  "expand (numeral k) [w0, w1, w2, w3, w4, w5, w6, w7, w8, w9, w10, w11, w12, w13, w14, w15] =
     (let x = sigma1 w14 + w9 + sigma0 w1 + w0
      in x # expand (pred_numeral k) [w1, w2, w3, w4, w5, w6, w7, w8, w9, w10, w11, w12, w13, w14, w15, x])"
  by (simp add: numeral_eq_Suc)

lemma expand_zero: "expand 0 ws = []"
  by simp

lemma hello_expand:
  "expand 48 [0x68656c6c, 0x6f20776f, 0x726c6421, 0x80000000, 0, 0, 0, 0, 0, 0, 0, 0, 0, 0, 0, 0x00000060] =
    [0x37470237, 0xc4fd8046, 0xe4bd30ac, 0xf01a8581, 0x3e7ac185, 0x124cc0af, 0x38fda6a2, 0x2f8dfa96, 0x2c88e44e, 0x26cf61f5, 0x5ec0776d, 0x9b4845eb, 0x47997554, 0x636c137e, 0x83b74804, 0x605caf20, 0xa0409ae2, 0xefa0081c, 0x9a8da462, 0xfabcdf28, 0x74c95788, 0xb51a9797, 0x718d8bae, 0x89be8666, 0xc7d0bd4d, 0x21f9da53, 0x77e184b6, 0xe3a635ce, 0xe3f8dcea, 0x7cd08ad3, 0xea49d6cb, 0x744a8cb6, 0xb9ed0a48, 0x3ece7c48, 0x1bdfe7ad, 0x1beb0c9f, 0x9cec4663, 0xb77838ae, 0x0f6faf0d, 0x0b41ab32, 0xfdec37c6, 0x2215c509, 0x3db19dd6, 0xd941ff44, 0x24a73a1c, 0x4bec35bd, 0x311c9aa3, 0xd38f1128]"
  by (simp only: expand_num expand_zero hello_sched_steps Let_def pred_numeral_simps BitM.simps)

lemma hello_schedule:
  "schedule [0x00000068, 0x00000065, 0x0000006c, 0x0000006c, 0x0000006f, 0x00000020, 0x00000077, 0x0000006f, 0x00000072, 0x0000006c, 0x00000064, 0x00000021, 0x00000080, 0, 0, 0, 0, 0, 0, 0, 0, 0, 0, 0, 0, 0, 0, 0, 0, 0, 0, 0, 0, 0, 0, 0, 0, 0, 0, 0, 0, 0, 0, 0, 0, 0, 0, 0, 0, 0, 0, 0, 0, 0, 0, 0, 0, 0, 0, 0, 0, 0, 0, 0x00000060] =
    [0x68656c6c, 0x6f20776f, 0x726c6421, 0x80000000, 0, 0, 0, 0, 0, 0, 0, 0, 0, 0, 0, 0x00000060, 0x37470237, 0xc4fd8046, 0xe4bd30ac, 0xf01a8581, 0x3e7ac185, 0x124cc0af, 0x38fda6a2, 0x2f8dfa96, 0x2c88e44e, 0x26cf61f5, 0x5ec0776d, 0x9b4845eb, 0x47997554, 0x636c137e, 0x83b74804, 0x605caf20, 0xa0409ae2, 0xefa0081c, 0x9a8da462, 0xfabcdf28, 0x74c95788, 0xb51a9797, 0x718d8bae, 0x89be8666, 0xc7d0bd4d, 0x21f9da53, 0x77e184b6, 0xe3a635ce, 0xe3f8dcea, 0x7cd08ad3, 0xea49d6cb, 0x744a8cb6, 0xb9ed0a48, 0x3ece7c48, 0x1bdfe7ad, 0x1beb0c9f, 0x9cec4663, 0xb77838ae, 0x0f6faf0d, 0x0b41ab32, 0xfdec37c6, 0x2215c509, 0x3db19dd6, 0xd941ff44, 0x24a73a1c, 0x4bec35bd, 0x311c9aa3, 0xd38f1128]"
  unfolding schedule_def hello_words Let_def hello_expand by simp

lemma hello_round_steps:
  "sha_round [0x6a09e667, 0xbb67ae85, 0x3c6ef372, 0xa54ff53a, 0x510e527f, 0x9b05688c, 0x1f83d9ab, 0x5be0cd19] (0x428a2f98, 0x68656c6c) =
     [0x646df4b9, 0x6a09e667, 0xbb67ae85, 0x3c6ef372, 0x012d4f0e, 0x510e527f, 0x9b05688c, 0x1f83d9ab]"
  "sha_round [0x646df4b9, 0x6a09e667, 0xbb67ae85, 0x3c6ef372, 0x012d4f0e, 0x510e527f, 0x9b05688c, 0x1f83d9ab] (0x71374491, 0x6f20776f) =
     [0x9fbbb243, 0x646df4b9, 0x6a09e667, 0xbb67ae85, 0x26ba0340, 0x012d4f0e, 0x510e527f, 0x9b05688c]"
  "sha_round [0x9fbbb243, 0x646df4b9, 0x6a09e667, 0xbb67ae85, 0x26ba0340, 0x012d4f0e, 0x510e527f, 0x9b05688c] (0xb5c0fbcf, 0x726c6421) =
     [0x5363d0af, 0x9fbbb243, 0x646df4b9, 0x6a09e667, 0x0566699e, 0x26ba0340, 0x012d4f0e, 0x510e527f]"
  "sha_round [0x5363d0af, 0x9fbbb243, 0x646df4b9, 0x6a09e667, 0x0566699e, 0x26ba0340, 0x012d4f0e, 0x510e527f] (0xe9b5dba5, 0x80000000) =
     [0xee1df2b0, 0x5363d0af, 0x9fbbb243, 0x646df4b9, 0x21db15f4, 0x0566699e, 0x26ba0340, 0x012d4f0e]"
  "sha_round [0xee1df2b0, 0x5363d0af, 0x9fbbb243, 0x646df4b9, 0x21db15f4, 0x0566699e, 0x26ba0340, 0x012d4f0e] (0x3956c25b, 0) =
     [0x7e7684c0, 0xee1df2b0, 0x5363d0af, 0x9fbbb243, 0x29ddb6db, 0x21db15f4, 0x0566699e, 0x26ba0340]"
  "sha_round [0x7e7684c0, 0xee1df2b0, 0x5363d0af, 0x9fbbb243, 0x29ddb6db, 0x21db15f4, 0x0566699e, 0x26ba0340] (0x59f111f1, 0) =
     [0x61c4b81b, 0x7e7684c0, 0xee1df2b0, 0x5363d0af, 0x9f7b4641, 0x29ddb6db, 0x21db15f4, 0x0566699e]"
  "sha_round [0x61c4b81b, 0x7e7684c0, 0xee1df2b0, 0x5363d0af, 0x9f7b4641, 0x29ddb6db, 0x21db15f4, 0x0566699e] (0x923f82a4, 0) =
     [0xae0b2529, 0x61c4b81b, 0x7e7684c0, 0xee1df2b0, 0x88cff7a4, 0x9f7b4641, 0x29ddb6db, 0x21db15f4]"
  "sha_round [0xae0b2529, 0x61c4b81b, 0x7e7684c0, 0xee1df2b0, 0x88cff7a4, 0x9f7b4641, 0x29ddb6db, 0x21db15f4] (0xab1c5ed5, 0) =
     [0x543e733c, 0xae0b2529, 0x61c4b81b, 0x7e7684c0, 0x65baa238, 0x88cff7a4, 0x9f7b4641, 0x29ddb6db]"
  "sha_round [0x543e733c, 0xae0b2529, 0x61c4b81b, 0x7e7684c0, 0x65baa238, 0x88cff7a4, 0x9f7b4641, 0x29ddb6db] (0xd807aa98, 0) =
     [0xf1ac8767, 0x543e733c, 0xae0b2529, 0x61c4b81b, 0x96f30e82, 0x65baa238, 0x88cff7a4, 0x9f7b4641]"
  "sha_round [0xf1ac8767, 0x543e733c, 0xae0b2529, 0x61c4b81b, 0x96f30e82, 0x65baa238, 0x88cff7a4, 0x9f7b4641] (0x12835b01, 0) =
     [0xcbc3421e, 0xf1ac8767, 0x543e733c, 0xae0b2529, 0xc4109f91, 0x96f30e82, 0x65baa238, 0x88cff7a4]"
  "sha_round [0xcbc3421e, 0xf1ac8767, 0x543e733c, 0xae0b2529, 0xc4109f91, 0x96f30e82, 0x65baa238, 0x88cff7a4] (0x243185be, 0) =
     [0x90dfed89, 0xcbc3421e, 0xf1ac8767, 0x543e733c, 0xbe2dd9c2, 0xc4109f91, 0x96f30e82, 0x65baa238]"
  "sha_round [0x90dfed89, 0xcbc3421e, 0xf1ac8767, 0x543e733c, 0xbe2dd9c2, 0xc4109f91, 0x96f30e82, 0x65baa238] (0x550c7dc3, 0) =
     [0xad7a75eb, 0x90dfed89, 0xcbc3421e, 0xf1ac8767, 0xb81bc63a, 0xbe2dd9c2, 0xc4109f91, 0x96f30e82]"
  "sha_round [0xad7a75eb, 0x90dfed89, 0xcbc3421e, 0xf1ac8767, 0xb81bc63a, 0xbe2dd9c2, 0xc4109f91, 0x96f30e82] (0x72be5d74, 0) =
     [0x5dbf745c, 0xad7a75eb, 0x90dfed89, 0xcbc3421e, 0x17bc3e1c, 0xb81bc63a, 0xbe2dd9c2, 0xc4109f91]"
  "sha_round [0x5dbf745c, 0xad7a75eb, 0x90dfed89, 0xcbc3421e, 0x17bc3e1c, 0xb81bc63a, 0xbe2dd9c2, 0xc4109f91] (0x80deb1fe, 0) =
     [0x5127da40, 0x5dbf745c, 0xad7a75eb, 0x90dfed89, 0x368f64fb, 0x17bc3e1c, 0xb81bc63a, 0xbe2dd9c2]"
  "sha_round [0x5127da40, 0x5dbf745c, 0xad7a75eb, 0x90dfed89, 0x368f64fb, 0x17bc3e1c, 0xb81bc63a, 0xbe2dd9c2] (0x9bdc06a7, 0) =
     [0xe3170b97, 0x5127da40, 0x5dbf745c, 0xad7a75eb, 0xbd9505ee, 0x368f64fb, 0x17bc3e1c, 0xb81bc63a]"
  "sha_round [0xe3170b97, 0x5127da40, 0x5dbf745c, 0xad7a75eb, 0xbd9505ee, 0x368f64fb, 0x17bc3e1c, 0xb81bc63a] (0xc19bf174, 0x00000060) =
     [0xc793e916, 0xe3170b97, 0x5127da40, 0x5dbf745c, 0x2b827edc, 0xbd9505ee, 0x368f64fb, 0x17bc3e1c]"
  "sha_round [0xc793e916, 0xe3170b97, 0x5127da40, 0x5dbf745c, 0x2b827edc, 0xbd9505ee, 0x368f64fb, 0x17bc3e1c] (0xe49b69c1, 0x37470237) =
     [0x554e2f7e, 0xc793e916, 0xe3170b97, 0x5127da40, 0x38ff3b00, 0x2b827edc, 0xbd9505ee, 0x368f64fb]"
  "sha_round [0x554e2f7e, 0xc793e916, 0xe3170b97, 0x5127da40, 0x38ff3b00, 0x2b827edc, 0xbd9505ee, 0x368f64fb] (0xefbe4786, 0xc4fd8046) =
     [0x557ad2dd, 0x554e2f7e, 0xc793e916, 0xe3170b97, 0x096ea90c, 0x38ff3b00, 0x2b827edc, 0xbd9505ee]"
  "sha_round [0x557ad2dd, 0x554e2f7e, 0xc793e916, 0xe3170b97, 0x096ea90c, 0x38ff3b00, 0x2b827edc, 0xbd9505ee] (0x0fc19dc6, 0xe4bd30ac) =
     [0x024cbb37, 0x557ad2dd, 0x554e2f7e, 0xc793e916, 0x6709713c, 0x096ea90c, 0x38ff3b00, 0x2b827edc]"
  "sha_round [0x024cbb37, 0x557ad2dd, 0x554e2f7e, 0xc793e916, 0x6709713c, 0x096ea90c, 0x38ff3b00, 0x2b827edc] (0x240ca1cc, 0xf01a8581) =
     [0x2d66c82e, 0x024cbb37, 0x557ad2dd, 0x554e2f7e, 0x73e41524, 0x6709713c, 0x096ea90c, 0x38ff3b00]"
  "sha_round [0x2d66c82e, 0x024cbb37, 0x557ad2dd, 0x554e2f7e, 0x73e41524, 0x6709713c, 0x096ea90c, 0x38ff3b00] (0x2de92c6f, 0x3e7ac185) =
     [0x2e309cd6, 0x2d66c82e, 0x024cbb37, 0x557ad2dd, 0x2d07908d, 0x73e41524, 0x6709713c, 0x096ea90c]"
  "sha_round [0x2e309cd6, 0x2d66c82e, 0x024cbb37, 0x557ad2dd, 0x2d07908d, 0x73e41524, 0x6709713c, 0x096ea90c] (0x4a7484aa, 0x124cc0af) =
     [0x4dc8fdfe, 0x2e309cd6, 0x2d66c82e, 0x024cbb37, 0xc5912a9c, 0x2d07908d, 0x73e41524, 0x6709713c]"
  "sha_round [0x4dc8fdfe, 0x2e309cd6, 0x2d66c82e, 0x024cbb37, 0xc5912a9c, 0x2d07908d, 0x73e41524, 0x6709713c] (0x5cb0a9dc, 0x38fda6a2) =
     [0xa9111560, 0x4dc8fdfe, 0x2e309cd6, 0x2d66c82e, 0x1e854b8a, 0xc5912a9c, 0x2d07908d, 0x73e41524]"
  "sha_round [0xa9111560, 0x4dc8fdfe, 0x2e309cd6, 0x2d66c82e, 0x1e854b8a, 0xc5912a9c, 0x2d07908d, 0x73e41524] (0x76f988da, 0x2f8dfa96) =
     [0x4db06113, 0xa9111560, 0x4dc8fdfe, 0x2e309cd6, 0x88f1fbd7, 0x1e854b8a, 0xc5912a9c, 0x2d07908d]"
  "sha_round [0x4db06113, 0xa9111560, 0x4dc8fdfe, 0x2e309cd6, 0x88f1fbd7, 0x1e854b8a, 0xc5912a9c, 0x2d07908d] (0x983e5152, 0x2c88e44e) =
     [0x0381f22e, 0x4db06113, 0xa9111560, 0x4dc8fdfe, 0xc9afe0a1, 0x88f1fbd7, 0x1e854b8a, 0xc5912a9c]"
  "sha_round [0x0381f22e, 0x4db06113, 0xa9111560, 0x4dc8fdfe, 0xc9afe0a1, 0x88f1fbd7, 0x1e854b8a, 0xc5912a9c] (0xa831c66d, 0x26cf61f5) =
     [0x980e62cf, 0x0381f22e, 0x4db06113, 0xa9111560, 0xc5ed1721, 0xc9afe0a1, 0x88f1fbd7, 0x1e854b8a]"
  "sha_round [0x980e62cf, 0x0381f22e, 0x4db06113, 0xa9111560, 0xc5ed1721, 0xc9afe0a1, 0x88f1fbd7, 0x1e854b8a] (0xb00327c8, 0x5ec0776d) =
     [0x60203581, 0x980e62cf, 0x0381f22e, 0x4db06113, 0x35bc8232, 0xc5ed1721, 0xc9afe0a1, 0x88f1fbd7]"
  "sha_round [0x60203581, 0x980e62cf, 0x0381f22e, 0x4db06113, 0x35bc8232, 0xc5ed1721, 0xc9afe0a1, 0x88f1fbd7] (0xbf597fc7, 0x9b4845eb) =
     [0x76e9fd1c, 0x60203581, 0x980e62cf, 0x0381f22e, 0x4fc4e1bf, 0x35bc8232, 0xc5ed1721, 0xc9afe0a1]"
  "sha_round [0x76e9fd1c, 0x60203581, 0x980e62cf, 0x0381f22e, 0x4fc4e1bf, 0x35bc8232, 0xc5ed1721, 0xc9afe0a1] (0xc6e00bf3, 0x47997554) =
     [0x49535c37, 0x76e9fd1c, 0x60203581, 0x980e62cf, 0x89ff1f05, 0x4fc4e1bf, 0x35bc8232, 0xc5ed1721]"
  "sha_round [0x49535c37, 0x76e9fd1c, 0x60203581, 0x980e62cf, 0x89ff1f05, 0x4fc4e1bf, 0x35bc8232, 0xc5ed1721] (0xd5a79147, 0x636c137e) =
     [0x24de3c3f, 0x49535c37, 0x76e9fd1c, 0x60203581, 0xddece147, 0x89ff1f05, 0x4fc4e1bf, 0x35bc8232]"
  "sha_round [0x24de3c3f, 0x49535c37, 0x76e9fd1c, 0x60203581, 0xddece147, 0x89ff1f05, 0x4fc4e1bf, 0x35bc8232] (0x06ca6351, 0x83b74804) =
     [0xc340aee7, 0x24de3c3f, 0x49535c37, 0x76e9fd1c, 0x6e4712bc, 0xddece147, 0x89ff1f05, 0x4fc4e1bf]"
  "sha_round [0xc340aee7, 0x24de3c3f, 0x49535c37, 0x76e9fd1c, 0x6e4712bc, 0xddece147, 0x89ff1f05, 0x4fc4e1bf] (0x14292967, 0x605caf20) =
     [0xdeac3cd2, 0xc340aee7, 0x24de3c3f, 0x49535c37, 0x8eee4f06, 0x6e4712bc, 0xddece147, 0x89ff1f05]"
  "sha_round [0xdeac3cd2, 0xc340aee7, 0x24de3c3f, 0x49535c37, 0x8eee4f06, 0x6e4712bc, 0xddece147, 0x89ff1f05] (0x27b70a85, 0xa0409ae2) =
     [0xe7a63c89, 0xdeac3cd2, 0xc340aee7, 0x24de3c3f, 0x885eaa9a, 0x8eee4f06, 0x6e4712bc, 0xddece147]"
  "sha_round [0xe7a63c89, 0xdeac3cd2, 0xc340aee7, 0x24de3c3f, 0x885eaa9a, 0x8eee4f06, 0x6e4712bc, 0xddece147] (0x2e1b2138, 0xefa0081c) =
     [0xcd15334c, 0xe7a63c89, 0xdeac3cd2, 0xc340aee7, 0x24fa9d3b, 0x885eaa9a, 0x8eee4f06, 0x6e4712bc]"
  "sha_round [0xcd15334c, 0xe7a63c89, 0xdeac3cd2, 0xc340aee7, 0x24fa9d3b, 0x885eaa9a, 0x8eee4f06, 0x6e4712bc] (0x4d2c6dfc, 0x9a8da462) =
     [0xe4ac2c03, 0xcd15334c, 0xe7a63c89, 0xdeac3cd2, 0xda5a86d4, 0x24fa9d3b, 0x885eaa9a, 0x8eee4f06]"
  "sha_round [0xe4ac2c03, 0xcd15334c, 0xe7a63c89, 0xdeac3cd2, 0xda5a86d4, 0x24fa9d3b, 0x885eaa9a, 0x8eee4f06] (0x53380d13, 0xfabcdf28) =
     [0x911b907d, 0xe4ac2c03, 0xcd15334c, 0xe7a63c89, 0x609f6f53, 0xda5a86d4, 0x24fa9d3b, 0x885eaa9a]"
  "sha_round [0x911b907d, 0xe4ac2c03, 0xcd15334c, 0xe7a63c89, 0x609f6f53, 0xda5a86d4, 0x24fa9d3b, 0x885eaa9a] (0x650a7354, 0x74c95788) =
     [0xde0f9ea2, 0x911b907d, 0xe4ac2c03, 0xcd15334c, 0x76ad1057, 0x609f6f53, 0xda5a86d4, 0x24fa9d3b]"
  "sha_round [0xde0f9ea2, 0x911b907d, 0xe4ac2c03, 0xcd15334c, 0x76ad1057, 0x609f6f53, 0xda5a86d4, 0x24fa9d3b] (0x766a0abb, 0xb51a9797) =
     [0x8c1a4987, 0xde0f9ea2, 0x911b907d, 0xe4ac2c03, 0x08304404, 0x76ad1057, 0x609f6f53, 0xda5a86d4]"
  "sha_round [0x8c1a4987, 0xde0f9ea2, 0x911b907d, 0xe4ac2c03, 0x08304404, 0x76ad1057, 0x609f6f53, 0xda5a86d4] (0x81c2c92e, 0x718d8bae) =
     [0x1916514d, 0x8c1a4987, 0xde0f9ea2, 0x911b907d, 0x9b89f826, 0x08304404, 0x76ad1057, 0x609f6f53]"
  "sha_round [0x1916514d, 0x8c1a4987, 0xde0f9ea2, 0x911b907d, 0x9b89f826, 0x08304404, 0x76ad1057, 0x609f6f53] (0x92722c85, 0x89be8666) =
     [0x74bc6a31, 0x1916514d, 0x8c1a4987, 0xde0f9ea2, 0xd45138a2, 0x9b89f826, 0x08304404, 0x76ad1057]"
  "sha_round [0x74bc6a31, 0x1916514d, 0x8c1a4987, 0xde0f9ea2, 0xd45138a2, 0x9b89f826, 0x08304404, 0x76ad1057] (0xa2bfe8a1, 0xc7d0bd4d) =
     [0x4a2195dc, 0x74bc6a31, 0x1916514d, 0x8c1a4987, 0x0f0670bc, 0xd45138a2, 0x9b89f826, 0x08304404]"
  "sha_round [0x4a2195dc, 0x74bc6a31, 0x1916514d, 0x8c1a4987, 0x0f0670bc, 0xd45138a2, 0x9b89f826, 0x08304404] (0xa81a664b, 0x21f9da53) =
     [0x5dc57aff, 0x4a2195dc, 0x74bc6a31, 0x1916514d, 0x576e2dd6, 0x0f0670bc, 0xd45138a2, 0x9b89f826]"
  "sha_round [0x5dc57aff, 0x4a2195dc, 0x74bc6a31, 0x1916514d, 0x576e2dd6, 0x0f0670bc, 0xd45138a2, 0x9b89f826] (0xc24b8b70, 0x77e184b6) =
     [0x2355c039, 0x5dc57aff, 0x4a2195dc, 0x74bc6a31, 0xca6648a6, 0x576e2dd6, 0x0f0670bc, 0xd45138a2]"
  "sha_round [0x2355c039, 0x5dc57aff, 0x4a2195dc, 0x74bc6a31, 0xca6648a6, 0x576e2dd6, 0x0f0670bc, 0xd45138a2] (0xc76c51a3, 0xe3a635ce) =
     [0xed00de69, 0x2355c039, 0x5dc57aff, 0x4a2195dc, 0xf85ae970, 0xca6648a6, 0x576e2dd6, 0x0f0670bc]"
  "sha_round [0xed00de69, 0x2355c039, 0x5dc57aff, 0x4a2195dc, 0xf85ae970, 0xca6648a6, 0x576e2dd6, 0x0f0670bc] (0xd192e819, 0xe3f8dcea) =
     [0x4d402d8a, 0xed00de69, 0x2355c039, 0x5dc57aff, 0x9ea4f0c5, 0xf85ae970, 0xca6648a6, 0x576e2dd6]"
  "sha_round [0x4d402d8a, 0xed00de69, 0x2355c039, 0x5dc57aff, 0x9ea4f0c5, 0xf85ae970, 0xca6648a6, 0x576e2dd6] (0xd6990624, 0x7cd08ad3) =
     [0x4cc0e140, 0x4d402d8a, 0xed00de69, 0x2355c039, 0x3d9147c0, 0x9ea4f0c5, 0xf85ae970, 0xca6648a6]"
  "sha_round [0x4cc0e140, 0x4d402d8a, 0xed00de69, 0x2355c039, 0x3d9147c0, 0x9ea4f0c5, 0xf85ae970, 0xca6648a6] (0xf40e3585, 0xea49d6cb) =
     [0x1dd3a1bb, 0x4cc0e140, 0x4d402d8a, 0xed00de69, 0xd9311548, 0x3d9147c0, 0x9ea4f0c5, 0xf85ae970]"
  "sha_round [0x1dd3a1bb, 0x4cc0e140, 0x4d402d8a, 0xed00de69, 0xd9311548, 0x3d9147c0, 0x9ea4f0c5, 0xf85ae970] (0x106aa070, 0x744a8cb6) =
     [0x8186ce84, 0x1dd3a1bb, 0x4cc0e140, 0x4d402d8a, 0x9c9c20df, 0xd9311548, 0x3d9147c0, 0x9ea4f0c5]"
  "sha_round [0x8186ce84, 0x1dd3a1bb, 0x4cc0e140, 0x4d402d8a, 0x9c9c20df, 0xd9311548, 0x3d9147c0, 0x9ea4f0c5] (0x19a4c116, 0xb9ed0a48) =
     [0xb41c1f45, 0x8186ce84, 0x1dd3a1bb, 0x4cc0e140, 0xa419bdbe, 0x9c9c20df, 0xd9311548, 0x3d9147c0]"
  "sha_round [0xb41c1f45, 0x8186ce84, 0x1dd3a1bb, 0x4cc0e140, 0xa419bdbe, 0x9c9c20df, 0xd9311548, 0x3d9147c0] (0x1e376c08, 0x3ece7c48) =
     [0x3657cce7, 0xb41c1f45, 0x8186ce84, 0x1dd3a1bb, 0x062a6cc1, 0xa419bdbe, 0x9c9c20df, 0xd9311548]"
  "sha_round [0x3657cce7, 0xb41c1f45, 0x8186ce84, 0x1dd3a1bb, 0x062a6cc1, 0xa419bdbe, 0x9c9c20df, 0xd9311548] (0x2748774c, 0x1bdfe7ad) =
     [0xebba597f, 0x3657cce7, 0xb41c1f45, 0x8186ce84, 0x5fd74f17, 0x062a6cc1, 0xa419bdbe, 0x9c9c20df]"
  "sha_round [0xebba597f, 0x3657cce7, 0xb41c1f45, 0x8186ce84, 0x5fd74f17, 0x062a6cc1, 0xa419bdbe, 0x9c9c20df] (0x34b0bcb5, 0x1beb0c9f) =
     [0x7608a4e0, 0xebba597f, 0x3657cce7, 0xb41c1f45, 0x68fce1da, 0x5fd74f17, 0x062a6cc1, 0xa419bdbe]"
  "sha_round [0x7608a4e0, 0xebba597f, 0x3657cce7, 0xb41c1f45, 0x68fce1da, 0x5fd74f17, 0x062a6cc1, 0xa419bdbe] (0x391c0cb3, 0x9cec4663) =
     [0x83c344a2, 0x7608a4e0, 0xebba597f, 0x3657cce7, 0xa9b27e5b, 0x68fce1da, 0x5fd74f17, 0x062a6cc1]"
  "sha_round [0x83c344a2, 0x7608a4e0, 0xebba597f, 0x3657cce7, 0xa9b27e5b, 0x68fce1da, 0x5fd74f17, 0x062a6cc1] (0x4ed8aa4a, 0xb77838ae) =
     [0x74de0d98, 0x83c344a2, 0x7608a4e0, 0xebba597f, 0x3eb55060, 0xa9b27e5b, 0x68fce1da, 0x5fd74f17]"
  "sha_round [0x74de0d98, 0x83c344a2, 0x7608a4e0, 0xebba597f, 0x3eb55060, 0xa9b27e5b, 0x68fce1da, 0x5fd74f17] (0x5b9cca4f, 0x0f6faf0d) =
     [0x8abe3726, 0x74de0d98, 0x83c344a2, 0x7608a4e0, 0xf5ec47c0, 0x3eb55060, 0xa9b27e5b, 0x68fce1da]"
  "sha_round [0x8abe3726, 0x74de0d98, 0x83c344a2, 0x7608a4e0, 0xf5ec47c0, 0x3eb55060, 0xa9b27e5b, 0x68fce1da] (0x682e6ff3, 0x0b41ab32) =
     [0x8d33a9fb, 0x8abe3726, 0x74de0d98, 0x83c344a2, 0x9d170727, 0xf5ec47c0, 0x3eb55060, 0xa9b27e5b]"
  "sha_round [0x8d33a9fb, 0x8abe3726, 0x74de0d98, 0x83c344a2, 0x9d170727, 0xf5ec47c0, 0x3eb55060, 0xa9b27e5b] (0x748f82ee, 0xfdec37c6) =
     [0xb3cc9912, 0x8d33a9fb, 0x8abe3726, 0x74de0d98, 0x489a4223, 0x9d170727, 0xf5ec47c0, 0x3eb55060]"
  "sha_round [0xb3cc9912, 0x8d33a9fb, 0x8abe3726, 0x74de0d98, 0x489a4223, 0x9d170727, 0xf5ec47c0, 0x3eb55060] (0x78a5636f, 0x2215c509) =
     [0xfd1298c0, 0xb3cc9912, 0x8d33a9fb, 0x8abe3726, 0x902efa37, 0x489a4223, 0x9d170727, 0xf5ec47c0]"
  "sha_round [0xfd1298c0, 0xb3cc9912, 0x8d33a9fb, 0x8abe3726, 0x902efa37, 0x489a4223, 0x9d170727, 0xf5ec47c0] (0x84c87814, 0x3db19dd6) =
     [0xc58431ee, 0xfd1298c0, 0xb3cc9912, 0x8d33a9fb, 0xe00f81f2, 0x902efa37, 0x489a4223, 0x9d170727]"
  "sha_round [0xc58431ee, 0xfd1298c0, 0xb3cc9912, 0x8d33a9fb, 0xe00f81f2, 0x902efa37, 0x489a4223, 0x9d170727] (0x8cc70208, 0xd941ff44) =
     [0xa230c63b, 0xc58431ee, 0xfd1298c0, 0xb3cc9912, 0x0b0f3b28, 0xe00f81f2, 0x902efa37, 0x489a4223]"
  "sha_round [0xa230c63b, 0xc58431ee, 0xfd1298c0, 0xb3cc9912, 0x0b0f3b28, 0xe00f81f2, 0x902efa37, 0x489a4223] (0x90befffa, 0x24a73a1c) =
     [0xd03b65e8, 0xa230c63b, 0xc58431ee, 0xfd1298c0, 0x84ad9f90, 0x0b0f3b28, 0xe00f81f2, 0x902efa37]"
  "sha_round [0xd03b65e8, 0xa230c63b, 0xc58431ee, 0xfd1298c0, 0x84ad9f90, 0x0b0f3b28, 0xe00f81f2, 0x902efa37] (0xa4506ceb, 0x4bec35bd) =
     [0x7e59059b, 0xd03b65e8, 0xa230c63b, 0xc58431ee, 0xc45b3c90, 0x84ad9f90, 0x0b0f3b28, 0xe00f81f2]"
  "sha_round [0x7e59059b, 0xd03b65e8, 0xa230c63b, 0xc58431ee, 0xc45b3c90, 0x84ad9f90, 0x0b0f3b28, 0xe00f81f2] (0xbef9a3f7, 0x311c9aa3) =
     [0xe55fb44d, 0x7e59059b, 0xd03b65e8, 0xa230c63b, 0x214ec229, 0xc45b3c90, 0x84ad9f90, 0x0b0f3b28]"
  "sha_round [0xe55fb44d, 0x7e59059b, 0xd03b65e8, 0xa230c63b, 0x214ec229, 0xc45b3c90, 0x84ad9f90, 0x0b0f3b28] (0xc67178f2, 0xd38f1128) =
     [0x0affff56, 0xe55fb44d, 0x7e59059b, 0xd03b65e8, 0x12ebaf4d, 0x214ec229, 0xc45b3c90, 0x84ad9f90]"
  by (simp_all add: Sigma0_def Sigma1_def Ch_def Maj_def rotr_def)

lemma hello_rounds:
  "foldl sha_round sha256_H0 (zip sha256_K
    [0x68656c6c, 0x6f20776f, 0x726c6421, 0x80000000, 0, 0, 0, 0, 0, 0, 0, 0, 0, 0, 0, 0x00000060, 0x37470237, 0xc4fd8046, 0xe4bd30ac, 0xf01a8581, 0x3e7ac185, 0x124cc0af, 0x38fda6a2, 0x2f8dfa96, 0x2c88e44e, 0x26cf61f5, 0x5ec0776d, 0x9b4845eb, 0x47997554, 0x636c137e, 0x83b74804, 0x605caf20, 0xa0409ae2, 0xefa0081c, 0x9a8da462, 0xfabcdf28, 0x74c95788, 0xb51a9797, 0x718d8bae, 0x89be8666, 0xc7d0bd4d, 0x21f9da53, 0x77e184b6, 0xe3a635ce, 0xe3f8dcea, 0x7cd08ad3, 0xea49d6cb, 0x744a8cb6, 0xb9ed0a48, 0x3ece7c48, 0x1bdfe7ad, 0x1beb0c9f, 0x9cec4663, 0xb77838ae, 0x0f6faf0d, 0x0b41ab32, 0xfdec37c6, 0x2215c509, 0x3db19dd6, 0xd941ff44, 0x24a73a1c, 0x4bec35bd, 0x311c9aa3, 0xd38f1128]) =
    [0x0affff56, 0xe55fb44d, 0x7e59059b, 0xd03b65e8, 0x12ebaf4d, 0x214ec229, 0xc45b3c90, 0x84ad9f90]"
  unfolding sha256_H0_def sha256_K_def
  by (simp only: zip_Cons_Cons zip_Nil foldl_Cons foldl_Nil hello_round_steps)

lemma hello_compress:
  "compress sha256_H0 [0x00000068, 0x00000065, 0x0000006c, 0x0000006c, 0x0000006f, 0x00000020, 0x00000077, 0x0000006f, 0x00000072, 0x0000006c, 0x00000064, 0x00000021, 0x00000080, 0, 0, 0, 0, 0, 0, 0, 0, 0, 0, 0, 0, 0, 0, 0, 0, 0, 0, 0, 0, 0, 0, 0, 0, 0, 0, 0, 0, 0, 0, 0, 0, 0, 0, 0, 0, 0, 0, 0, 0, 0, 0, 0, 0, 0, 0, 0, 0, 0, 0, 0x00000060] =
    [0x7509e5bd, 0xa0c762d2, 0xbac7f90d, 0x758b5b22, 0x63fa01cc, 0xbc542ab5, 0xe3df163b, 0xe08e6ca9]"
  unfolding compress_def hello_schedule hello_rounds by (simp add: sha256_H0_def)

lemma hello_sha256_words:
  "sha256_words [104, 101, 108, 108, 111, 32, 119, 111, 114, 108, 100, 33] =
    [0x7509e5bd, 0xa0c762d2, 0xbac7f90d, 0x758b5b22, 0x63fa01cc, 0xbc542ab5, 0xe3df163b, 0xe08e6ca9]"
  unfolding sha256_words_def hello_pad hello_blocks by (simp add: hello_compress)

lemma hello_sha256_hex:
  "sha256_hex (bytes_of ''hello world!'') =
    ''7509e5bda0c762d2bac7f90d758b5b2263fa01ccbc542ab5e3df163be08e6ca9''"
  unfolding sha256_hex_def hello_bytes hello_sha256_words
  by (simp add: hex_u32_def hex_char_def hex_digits_def)

section \<open>The content verifier\<close>

lemma length_sha_round: "length (sha_round s kw) = length s"
  by (cases "(s, kw)" rule: sha_round.cases) (simp_all add: Let_def)

lemma length_foldl_sha_round: "length (foldl sha_round s xs) = length s"
  by (induction xs arbitrary: s) (simp_all add: length_sha_round)

lemma length_compress: "length (compress hs block) = length hs"
  by (simp add: compress_def length_foldl_sha_round)

lemma length_foldl_compress: "length (foldl compress hs blocks) = length hs"
  by (induction blocks arbitrary: hs) (simp_all add: length_compress)

lemma length_sha256_words: "length (sha256_words m) = 8"
  by (simp add: sha256_words_def length_foldl_compress sha256_H0_def)

lemma length_concat_hex: "length (concat (map hex_u32 ws)) = 8 * length ws"
  by (induction ws) (simp_all add: hex_u32_def)

lemma length_sha256_hex: "length (sha256_hex m) = 64"
  by (simp add: sha256_hex_def length_concat_hex length_sha256_words)

lemma hex_char_lower: "hex_char d \<in> set hex_digits"
proof -
  have "d mod 16 < length hex_digits" by (simp add: hex_digits_def)
  then show ?thesis unfolding hex_char_def by (rule nth_mem)
qed

lemma hex_u32_lower: "set (hex_u32 w) \<subseteq> set hex_digits"
  unfolding hex_u32_def using hex_char_lower by auto

lemma sha256_hex_lower: "set (sha256_hex m) \<subseteq> set hex_digits"
proof
  fix c assume "c \<in> set (sha256_hex m)"
  then obtain w where "c \<in> set (hex_u32 w)"
    by (auto simp: sha256_hex_def)
  then show "c \<in> set hex_digits" using hex_u32_lower by blast
qed

lemma hash_loop_concat:
  "hash_loop chunks (hasher, total_bytes)
     = (hasher @ concat chunks, total_bytes + length (concat chunks))"
  by (induction chunks arbitrary: hasher total_bytes) simp_all

text \<open>
  Claim C6.  For every remote byte stream that is delivered (no 4xx/5xx status, stream
  not broken), \<open>download_and_hash_s3\<close> returns the SHA-256 digest of the streamed bytes
  as 64 lower-case hexadecimal characters together with their exact number; the result
  depends only on the bytes, not on how they are cut into chunks, so verifying the same
  stream twice gives the same digest and count; and the twelve bytes of
  \<^verbatim>\<open>hello world!\<close> hash to 7509e5bd...e08e6ca9.
\<close>

theorem download_and_hash_s3_digest:
  assumes "\<not> raise_for_status status"
  shows "download_and_hash_s3 (Response status chunks True)
           = Inr (sha256_hex (concat chunks), length (concat chunks))
         \<and> length (sha256_hex (concat chunks)) = 64
         \<and> set (sha256_hex (concat chunks)) \<subseteq> set hex_digits
         \<and> download_and_hash_s3 (Response status [concat chunks] True)
             = download_and_hash_s3 (Response status chunks True)
         \<and> sha256_hex (bytes_of ''hello world!'')
             = ''7509e5bda0c762d2bac7f90d758b5b2263fa01ccbc542ab5e3df163be08e6ca9''"
proof -
  have a: "download_and_hash_s3 (Response status cs True)
           = Inr (sha256_hex (concat cs), length (concat cs))" for cs
    using assms by (simp add: download_and_hash_s3_def hash_loop_concat)
  have b: "download_and_hash_s3 (Response status [concat chunks] True)
           = download_and_hash_s3 (Response status chunks True)"
    by (simp add: a)
  show ?thesis
    using a [of chunks] b length_sha256_hex [of "concat chunks"]
      sha256_hex_lower [of "concat chunks"] hello_sha256_hex
    by (simp only: simp_thms)
qed

theorem download_and_hash_s3_digest_witness:
  "\<not> raise_for_status 200
   \<and> download_and_hash_s3 (Response 200 [bytes_of ''hello '', [], bytes_of ''world!''] True)
       = Inr (''7509e5bda0c762d2bac7f90d758b5b2263fa01ccbc542ab5e3df163be08e6ca9'', 12)"
proof -
  have h: "\<not> raise_for_status 200" by (simp add: raise_for_status_def)
  have c: "concat [bytes_of ''hello '', [], bytes_of ''world!''] = bytes_of ''hello world!''"
    by (simp add: bytes_of_def)
  have l: "length (bytes_of ''hello world!'') = 12" by (simp add: bytes_of_def)
  note t = download_and_hash_s3_digest [OF h, of "[bytes_of ''hello '', [], bytes_of ''world!'']"]
  have d: "download_and_hash_s3 (Response 200 [bytes_of ''hello '', [], bytes_of ''world!''] True)
           = Inr (sha256_hex (bytes_of ''hello world!''), length (bytes_of ''hello world!''))"
    using t unfolding c by (rule conjunct1)
  have e: "sha256_hex (bytes_of ''hello world!'')
           = ''7509e5bda0c762d2bac7f90d758b5b2263fa01ccbc542ab5e3df163be08e6ca9''"
    using t by (elim conjE)
  show ?thesis using h d unfolding e l by (rule conjI)
qed


section \<open>The checkpoint file\<close>

text \<open>
  The checkpoint of import\_limited.py carries the position, the whole table, the
  institution id and a timestamp, and the resumed importer starts from them.
\<close>

lemma save_checkpoint_limited_keys:
  "map fst (the (save_checkpoint_limited now f r imp))
     = [''file_number'', ''record_index'', ''timestamp'', ''nara_to_pi'', ''institution_pi'']"
  by (simp add: save_checkpoint_limited_def)

lemma resume_limited_restores:
  "resume_limited (save_checkpoint_limited now f r imp)
     = Inr (f, r, NARAImporter ''WJC-NSCSW'' False (Some (nara_to_pi imp)) (institution_pi imp))"
  by (simp add: resume_limited_def save_checkpoint_limited_def load_checkpoint_limited_def
      ckpt_int_def ckpt_table_def ckpt_institution_def split: option.splits)

text \<open>
  Claim C1 fails in import\_full\_collection.py: whatever the importer has recorded,
  the checkpoint written there has exactly the keys file\_number, record\_index and
  timestamp, neither the table nor the institution id, and the importer constructed on
  resume has an empty table and no institution id.
\<close>

theorem save_checkpoint_full_without_ledger:
  "map fst (the (save_checkpoint_full ''2025-01-01T00:00:00'' 3 10))
     = [''file_number'', ''record_index'', ''timestamp'']
   \<and> map_of (the (save_checkpoint_full ''2025-01-01T00:00:00'' 3 10)) ''nara_to_pi'' = None
   \<and> map_of (the (save_checkpoint_full ''2025-01-01T00:00:00'' 3 10)) ''institution_pi'' = None
   \<and> resume_full (save_checkpoint_full ''2025-01-01T00:00:00'' 3 10)
       = Inr (3, 10, NARAImporter ''WJC-NSCSW'' False None None)
   \<and> nara_to_pi (NARAImporter ''WJC-NSCSW'' False None None) ''7388842'' = None"
  by (simp add: save_checkpoint_full_def resume_full_def load_checkpoint_full_def ckpt_int_def
      NARAImporter_def)


section \<open>The entity-creation call of the adapter\<close>


text \<open>No request built by \<open>create_entity\<close> names a parent.\<close>

lemma create_entity_payload_keys:
  "set (map fst (set_if_truthy ''note'' n (set_if_truthy ''children_pi'' c
      (set_if_truthy ''pi'' p [(''components'', comps)]))))
   \<subseteq> {''components'', ''pi'', ''children_pi'', ''note''}"
  by (auto simp: set_if_truthy_def)


section \<open>The identity ledger under the import operations\<close>

lemma import_collection_mapped:
  "nara_to_pi st (py_str n) = Some v \<Longrightarrow> import_collection ev n t d f st = (Inr v, st)"
  by (simp add: import_collection_def)

lemma import_series_mapped:
  "nara_to_pi st (py_str n) = Some v \<Longrightarrow> import_series ev n p t d c f st = (Inr v, st)"
  by (simp add: import_series_def)

lemma import_fileunit_mapped:
  "nara_to_pi st (py_str n) = Some v
   \<Longrightarrow> import_fileunit ev n p c t rt objs ar ft pl ot f st = (Inr v, st)"
  by (simp add: import_fileunit_def)

lemma import_digitalobject_mapped:
  "nara_to_pi st oid = Some v
   \<Longrightarrow> import_digitalobject ev oid p fn ty u fs pg tx f st = (Inr v, st)"
  by (simp add: import_digitalobject_def)

lemma import_institution_keeps:
  "nara_to_pi (snd (import_institution ev name d u l st)) = nara_to_pi st"
  by (simp add: import_institution_def api_upload_json_def api_get_arke_block_def
      api_create_entity_def Let_def ledger_record_def split: sum.splits prod.splits)

lemma import_collection_keeps:
  "nara_to_pi st k = Some v \<Longrightarrow> nara_to_pi (snd (import_collection ev n t d f st)) k = Some v"
  by (auto simp: import_collection_def api_upload_json_def api_create_entity_def Let_def ledger_record_def
      split: option.splits sum.splits prod.splits)

lemma import_series_keeps:
  "nara_to_pi st k = Some v \<Longrightarrow> nara_to_pi (snd (import_series ev n p t d c f st)) k = Some v"
  by (auto simp: import_series_def api_upload_json_def api_create_entity_def Let_def ledger_record_def
      split: option.splits sum.splits prod.splits)

lemma import_digitalobject_keeps:
  "nara_to_pi st k = Some v
   \<Longrightarrow> nara_to_pi (snd (import_digitalobject ev oid p fn ty u fs pg tx f st)) k = Some v"
  by (auto simp: import_digitalobject_def api_upload_json_def api_create_entity_def
      http_download_def Let_def ledger_record_def split: option.splits sum.splits prod.splits)

lemma import_object_entry_keeps:
  "nara_to_pi st k = Some v
   \<Longrightarrow> nara_to_pi (snd (import_object_entry ev n i obj st)) k = Some v"
  by (simp add: import_object_entry_def import_digitalobject_keeps split: sum.splits)

lemma import_objects_keeps:
  "nara_to_pi st k = Some v \<Longrightarrow> nara_to_pi (import_objects ev n i objs st) k = Some v"
proof (induction objs arbitrary: i st)
  case Nil
  then show ?case by simp
next
  case (Cons obj rest)
  obtain r st1 where e: "import_object_entry ev n i obj st = (r, st1)"
    by (cases "import_object_entry ev n i obj st")
  have k1: "nara_to_pi st1 k = Some v"
    using import_object_entry_keeps [OF Cons.prems, of ev n i obj] e by simp
  show ?case
  proof (cases r)
    case (Inl err)
    have "nara_to_pi (st1\<lparr>stats := (stats st1)\<lparr>errors := errors (stats st1) + 1\<rparr>\<rparr>) k = Some v"
      using k1 by simp
    then show ?thesis using e Inl Cons.IH by simp
  next
    case (Inr p)
    then show ?thesis using e k1 Cons.IH by simp
  qed
qed

lemma import_fileunit_keeps:
  "nara_to_pi st k = Some v
   \<Longrightarrow> nara_to_pi (snd (import_fileunit ev n p c t rt objs ar ft pl ot f st)) k = Some v"
  by (auto simp: import_fileunit_def api_upload_json_def api_create_entity_def Let_def ledger_record_def
      intro!: import_objects_keeps split: option.splits sum.splits prod.splits)


text \<open>
  Claim C2 (amended).  For every source id already mapped in the identity ledger, every
  import operation leaves the mapping as it is: the operation for that id returns the
  recorded store id through its membership guard, with no assertion or error, and no
  operation for another id touches it.  So a source id keeps one store id for the
  lifetime of a run.
\<close>

theorem ledger_mapping_kept:
  assumes "nara_to_pi st k = Some v"
  shows "nara_to_pi (snd (import_institution ev name d u l st)) k = Some v
       \<and> nara_to_pi (snd (import_collection ev n1 t1 d1 f1 st)) k = Some v
       \<and> nara_to_pi (snd (import_series ev n2 p2 t2 d2 c2 f2 st)) k = Some v
       \<and> nara_to_pi (snd (import_fileunit ev n3 p3 c3 t3 rt3 objs ar3 ft3 pl3 ot3 f3 st)) k = Some v
       \<and> nara_to_pi (snd (import_digitalobject ev oid p4 fn4 ty4 u4 fs4 pg4 tx4 f4 st)) k = Some v
       \<and> (py_str n1 = k \<longrightarrow> import_collection ev n1 t1 d1 f1 st = (Inr v, st))
       \<and> (py_str n2 = k \<longrightarrow> import_series ev n2 p2 t2 d2 c2 f2 st = (Inr v, st))
       \<and> (py_str n3 = k \<longrightarrow>
            import_fileunit ev n3 p3 c3 t3 rt3 objs ar3 ft3 pl3 ot3 f3 st = (Inr v, st))
       \<and> (oid = k \<longrightarrow> import_digitalobject ev oid p4 fn4 ty4 u4 fs4 pg4 tx4 f4 st = (Inr v, st))"
  using assms
  by (simp add: import_institution_keeps import_collection_keeps import_series_keeps
      import_fileunit_keeps import_digitalobject_keeps import_collection_mapped
      import_series_mapped import_fileunit_mapped import_digitalobject_mapped)

theorem ledger_mapping_kept_witness:
  "nara_to_pi (NARAImporter ''WJC-NSCSW'' False (Some [''obj1'' \<mapsto> ''01OLD'']) (Some ''01INST''))
      ''obj1'' = Some ''01OLD''
   \<and> import_digitalobject demo_env ''obj1'' 23902919 ''page1.jpg'' ''Image (JPG)''
        ''s3://bucket/page1.jpg'' None (Some 1) None JNull
        (NARAImporter ''WJC-NSCSW'' False (Some [''obj1'' \<mapsto> ''01OLD'']) (Some ''01INST''))
      = (Inr ''01OLD'',
         NARAImporter ''WJC-NSCSW'' False (Some [''obj1'' \<mapsto> ''01OLD'']) (Some ''01INST''))"
proof -
  have h: "nara_to_pi (NARAImporter ''WJC-NSCSW'' False (Some [''obj1'' \<mapsto> ''01OLD''])
             (Some ''01INST'')) ''obj1'' = Some ''01OLD''"
    by (simp add: NARAImporter_def)
  show ?thesis
    using h ledger_mapping_kept [OF h, where oid = "''obj1''" and ev = demo_env]
    by simp
qed

text \<open>
  Claim C2 as stated fails: the write to the ledger is a plain dictionary store, which
  replaces a recorded store id without any error, and importing an id that is already
  mapped returns normally where the claim has an assertion or error.
\<close>

theorem ledger_record_counterexample:
  "nara_to_pi (ledger_record
       (ledger_record (NARAImporter ''WJC-NSCSW'' False None None) ''7388842'' ''01OLD'')
       ''7388842'' ''01NEW'') ''7388842'' = Some ''01NEW''
   \<and> fst (import_digitalobject demo_env ''obj1'' 23902919 ''page1.jpg'' ''Image (JPG)''
        ''s3://bucket/page1.jpg'' None (Some 1) None JNull
        (NARAImporter ''WJC-NSCSW'' False (Some [''obj1'' \<mapsto> ''01OLD'']) (Some ''01INST'')))
      = Inr ''01OLD''"
  by (simp add: ledger_record_def NARAImporter_def import_digitalobject_def)

section \<open>Deduplication of a shared series\<close>

lemma import_series_result_mapped:
  assumes "import_series ev n p t d c f st = (Inr pi, st1)"
  shows "nara_to_pi st1 (py_str n) = Some pi"
  using assms
  by (auto simp: import_series_def api_upload_json_def api_create_entity_def Let_def
      ledger_record_def split: option.splits sum.splits prod.splits if_splits)

lemma import_series_creates_once:
  assumes "import_series ev n p t d c f st = (Inr pi, st1)"
    and "\<not> dry_run st" and "nara_to_pi st (py_str n) = None"
  shows "length (filter is_create_entity (calls st1))
           = length (filter is_create_entity (calls st)) + 1
         \<and> series_created (stats st1) = series_created (stats st) + 1
         \<and> length (uploaded (calls st1)) = length (uploaded (calls st)) + 1"
proof -
  have up: "uploaded (cs @ [UploadJson x, CreateEntity a b e]) = uploaded cs @ [x]" for cs x a b e
    by (induction cs rule: uploaded.induct) simp_all
  show ?thesis
    using assms
    by (auto simp: import_series_def api_upload_json_def api_create_entity_def Let_def
        ledger_record_def up split: option.splits sum.splits prod.splits if_splits)
qed

lemma perform_keeps:
  "nara_to_pi st k = Some v \<Longrightarrow> nara_to_pi (snd (perform ev c st)) k = Some v"
  by (cases c)
    (simp_all add: import_institution_keeps import_collection_keeps import_series_keeps
      import_fileunit_keeps import_digitalobject_keeps)

lemma perform_all_keeps:
  "nara_to_pi st k = Some v \<Longrightarrow> nara_to_pi (perform_all ev cs st) k = Some v"
  by (induction cs arbitrary: st) (simp_all add: perform_keeps)

text \<open>
  Claim C3 (amended).  When an import of a series has returned a store id, every later
  import of the same series id in the run, whatever import operations were performed in
  between and whatever title or metadata the later record carries, finds the mapping,
  returns that same store id and changes nothing: no catalog record is uploaded and no
  entity is created, so both records resolve the series to the same store id.  If the
  series was not yet mapped and the run is not a dry run, that first successful import
  issued exactly one upload and exactly one entity creation.
\<close>

theorem import_series_dedup:
  assumes "import_series ev n p1 t1 d1 c1 f1 st = (Inr pi, st1)"
  shows "import_series ev n p2 t2 d2 c2 f2 (perform_all ev mid st1)
           = (Inr pi, perform_all ev mid st1)
       \<and> (\<not> dry_run st \<and> nara_to_pi st (py_str n) = None \<longrightarrow>
            length (filter is_create_entity (calls st1))
              = length (filter is_create_entity (calls st)) + 1
            \<and> length (uploaded (calls st1)) = length (uploaded (calls st)) + 1
            \<and> series_created (stats st1) = series_created (stats st) + 1)"
proof -
  have "nara_to_pi st1 (py_str n) = Some pi"
    using assms by (rule import_series_result_mapped)
  then have "nara_to_pi (perform_all ev mid st1) (py_str n) = Some pi"
    by (rule perform_all_keeps)
  then have later: "import_series ev n p2 t2 d2 c2 f2 (perform_all ev mid st1)
                      = (Inr pi, perform_all ev mid st1)"
    by (rule import_series_mapped)
  show ?thesis
    using later import_series_creates_once [OF assms] by simp
qed

theorem import_series_dedup_witness:
  "fst (import_series demo_env 7585787 7388842 ''Series A'' JNull JNull JNull demo_importer)
     = Inr (''pi/Series: Series A (naId:7585787)'')
   \<and> import_series demo_env 7585787 7388842 ''Series A, seen again'' JNull JNull JNull
       (perform_all demo_env
          [CallCollection 7388842 ''Records'' JNull JNull,
           CallFileunit 23902919 7585787 7388842 ''Folder'' (JList []) five_assets
             JNull JNull JNull JNull JNull]
          (snd (import_series demo_env 7585787 7388842 ''Series A'' JNull JNull JNull
                  demo_importer)))
     = (Inr (''pi/Series: Series A (naId:7585787)''),
        perform_all demo_env
          [CallCollection 7388842 ''Records'' JNull JNull,
           CallFileunit 23902919 7585787 7388842 ''Folder'' (JList []) five_assets
             JNull JNull JNull JNull JNull]
          (snd (import_series demo_env 7585787 7388842 ''Series A'' JNull JNull JNull
                  demo_importer)))
   \<and> length (filter is_create_entity (calls
       (snd (import_series demo_env 7585787 7388842 ''Series A'' JNull JNull JNull
               demo_importer)))) = 1"
proof -
  let ?st1 = "snd (import_series demo_env 7585787 7388842 ''Series A'' JNull JNull JNull
                demo_importer)"
  let ?mid = "[CallCollection 7388842 ''Records'' JNull JNull,
               CallFileunit 23902919 7585787 7388842 ''Folder'' (JList []) five_assets
                 JNull JNull JNull JNull JNull]"
  have n: "py_str 7585787 = ''7585787''" by (simp add: py_str_eval)
  have h: "import_series demo_env 7585787 7388842 ''Series A'' JNull JNull JNull demo_importer
           = (Inr (''pi/Series: Series A (naId:7585787)''), ?st1)"
    by (simp add: import_series_def demo_importer_def NARAImporter_def demo_env_def
        api_upload_json_def api_create_entity_def Let_def ledger_record_def n)
  have a: "\<not> dry_run demo_importer \<and> nara_to_pi demo_importer (py_str 7585787) = None"
    by (simp add: demo_importer_def NARAImporter_def)
  have b: "calls demo_importer = []"
    by (simp add: demo_importer_def NARAImporter_def)
  note t = import_series_dedup [OF h, of 7388842 "''Series A, seen again''" JNull JNull JNull ?mid]
  have f: "fst (import_series demo_env 7585787 7388842 ''Series A'' JNull JNull JNull
             demo_importer) = Inr (''pi/Series: Series A (naId:7585787)'')"
    using arg_cong [OF h, of fst] by simp
  have s: "import_series demo_env 7585787 7388842 ''Series A, seen again'' JNull JNull JNull
             (perform_all demo_env ?mid ?st1)
           = (Inr (''pi/Series: Series A (naId:7585787)''), perform_all demo_env ?mid ?st1)"
    using t by (rule conjunct1)
  have "length (filter is_create_entity (calls ?st1))
        = length (filter is_create_entity (calls demo_importer)) + 1"
    using t a by blast
  then have c: "length (filter is_create_entity (calls ?st1)) = 1"
    unfolding b by simp
  show ?thesis using f s c by blast
qed

text \<open>
  Claim C3 as stated fails when the first creation fails: the failed import records
  nothing, the record is given up, and the import for the next record of the same
  series issues a second creation call.
\<close>

theorem import_series_retry_counterexample:
  "fst (import_series flaky_env 7585787 7388842 ''Series A'' JNull JNull JNull demo_importer)
     = Inl ArkeAPIError
   \<and> fst (import_series flaky_env 7585787 7388842 ''Series A'' JNull JNull JNull
           (snd (import_series flaky_env 7585787 7388842 ''Series A'' JNull JNull JNull
                   demo_importer)))
     = Inr (''pi/Series: Series A (naId:7585787)'')
   \<and> length (filter is_create_entity (calls
       (snd (import_series flaky_env 7585787 7388842 ''Series A'' JNull JNull JNull
          (snd (import_series flaky_env 7585787 7388842 ''Series A'' JNull JNull JNull
                  demo_importer)))))) = 2"
proof -
  have n: "py_str 7585787 = ''7585787''" by (simp add: py_str_eval)
  have u: "upload_json_reply flaky_env cs data = Inr ''bafy-cid''" for cs data
    by (simp add: flaky_env_def demo_env_def)
  have c: "create_entity_reply flaky_env cs comps parent nt =
             (if filter is_create_entity cs = [] then Inl ArkeAPIError
              else Inr \<lparr>er_pi = ''pi/'' @ nt, er_ver = 1\<rparr>)" for cs comps parent nt
    by (simp add: flaky_env_def)
  show ?thesis
    by (simp add: import_series_def demo_importer_def NARAImporter_def u c
        api_upload_json_def api_create_entity_def Let_def ledger_record_def n)
qed

section \<open>Dry runs\<close>

lemma import_institution_dry:
  "dry_run st \<Longrightarrow>
   import_institution ev name d u l st =
     (if truthy_pi (institution_pi st) then (Inr (the (institution_pi st)), st)
      else (Inr ''dry-run-pi'', st\<lparr>institution_pi := Some ''dry-run-pi''\<rparr>))"
  by (simp add: import_institution_def Let_def)

lemma import_collection_dry:
  "dry_run st \<Longrightarrow>
   import_collection ev n t d f st =
     (case nara_to_pi st (py_str n) of
        Some v \<Rightarrow> (Inr v, st)
      | None \<Rightarrow> (Inr ''dry-run-pi'', ledger_record st (py_str n) ''dry-run-pi''))"
  by (simp add: import_collection_def Let_def split: option.splits)

lemma import_series_dry:
  "dry_run st \<Longrightarrow>
   import_series ev n p t d c f st =
     (case nara_to_pi st (py_str n) of
        Some v \<Rightarrow> (Inr v, st)
      | None \<Rightarrow> (Inr ''dry-run-pi'', ledger_record st (py_str n) ''dry-run-pi''))"
  by (simp add: import_series_def Let_def split: option.splits)

lemma import_fileunit_dry:
  "dry_run st \<Longrightarrow>
   import_fileunit ev n p c t rt objs ar ft pl ot f st =
     (case nara_to_pi st (py_str n) of
        Some v \<Rightarrow> (Inr v, st)
      | None \<Rightarrow> (Inr ''dry-run-pi'', ledger_record st (py_str n) ''dry-run-pi''))"
  by (simp add: import_fileunit_def Let_def split: option.splits)

lemma import_digitalobject_dry:
  "dry_run st \<Longrightarrow>
   import_digitalobject ev oid p fn ty u fs pg tx f st =
     (case nara_to_pi st oid of
        Some v \<Rightarrow> (Inr v, st)
      | None \<Rightarrow> (Inr ''dry-run-pi'', ledger_record st oid ''dry-run-pi''))"
  by (simp add: import_digitalobject_def Let_def split: option.splits)

text \<open>
  Claim C10 (amended).  When the importer is constructed with \<open>dry_run = True\<close>, every
  import operation issues no store or network call and leaves every counter unchanged,
  at zero after construction.  For a source id that is not yet mapped the operation
  returns the sentinel dry-run-pi and records it for that id; for a source id that is
  already mapped (through the initial mappings, or a non-empty institution PI given to
  the constructor) it returns the recorded store id instead of the sentinel.
\<close>

theorem dry_run_operations:
  assumes "dry_run st"
  shows "(case import_institution ev name d u l st of (r, st') \<Rightarrow>
            r = Inr (if truthy_pi (institution_pi st) then the (institution_pi st)
                     else ''dry-run-pi'')
            \<and> institution_pi st' = Some (if truthy_pi (institution_pi st)
                                         then the (institution_pi st) else ''dry-run-pi'')
            \<and> calls st' = calls st \<and> stats st' = stats st)
       \<and> (case import_collection ev n1 t1 d1 f1 st of (r, st') \<Rightarrow>
            r = Inr (case nara_to_pi st (py_str n1) of None \<Rightarrow> ''dry-run-pi'' | Some v \<Rightarrow> v)
            \<and> nara_to_pi st' (py_str n1) = Some (case nara_to_pi st (py_str n1) of
                                                  None \<Rightarrow> ''dry-run-pi'' | Some v \<Rightarrow> v)
            \<and> calls st' = calls st \<and> stats st' = stats st)
       \<and> (case import_series ev n2 p2 t2 d2 c2 f2 st of (r, st') \<Rightarrow>
            r = Inr (case nara_to_pi st (py_str n2) of None \<Rightarrow> ''dry-run-pi'' | Some v \<Rightarrow> v)
            \<and> nara_to_pi st' (py_str n2) = Some (case nara_to_pi st (py_str n2) of
                                                  None \<Rightarrow> ''dry-run-pi'' | Some v \<Rightarrow> v)
            \<and> calls st' = calls st \<and> stats st' = stats st)
       \<and> (case import_fileunit ev n3 p3 c3 t3 rt3 objs ar3 ft3 pl3 ot3 f3 st of (r, st') \<Rightarrow>
            r = Inr (case nara_to_pi st (py_str n3) of None \<Rightarrow> ''dry-run-pi'' | Some v \<Rightarrow> v)
            \<and> nara_to_pi st' (py_str n3) = Some (case nara_to_pi st (py_str n3) of
                                                  None \<Rightarrow> ''dry-run-pi'' | Some v \<Rightarrow> v)
            \<and> calls st' = calls st \<and> stats st' = stats st)
       \<and> (case import_digitalobject ev oid p4 fn4 ty4 u4 fs4 pg4 tx4 f4 st of (r, st') \<Rightarrow>
            r = Inr (case nara_to_pi st oid of None \<Rightarrow> ''dry-run-pi'' | Some v \<Rightarrow> v)
            \<and> nara_to_pi st' oid = Some (case nara_to_pi st oid of
                                          None \<Rightarrow> ''dry-run-pi'' | Some v \<Rightarrow> v)
            \<and> calls st' = calls st \<and> stats st' = stats st)
       \<and> stats (NARAImporter cid True im ip) = zero_stats
       \<and> calls (NARAImporter cid True im ip) = []"
proof -
  have i: "truthy_pi (institution_pi st) \<Longrightarrow> institution_pi st = Some (the (institution_pi st))"
    by (cases "institution_pi st") (simp_all add: truthy_pi_def)
  show ?thesis
    using assms i
    by (simp add: import_institution_dry import_collection_dry import_series_dry
        import_fileunit_dry import_digitalobject_dry ledger_record_def NARAImporter_def
        split: option.splits)
qed

theorem dry_run_operations_witness:
  "dry_run (NARAImporter ''WJC-NSCSW'' True None None)
   \<and> fst (import_collection demo_env 7388842 ''Records'' JNull JNull
            (NARAImporter ''WJC-NSCSW'' True None None)) = Inr ''dry-run-pi''
   \<and> calls (snd (import_collection demo_env 7388842 ''Records'' JNull JNull
            (NARAImporter ''WJC-NSCSW'' True None None))) = []
   \<and> stats (snd (import_collection demo_env 7388842 ''Records'' JNull JNull
            (NARAImporter ''WJC-NSCSW'' True None None))) = zero_stats
   \<and> nara_to_pi (snd (import_collection demo_env 7388842 ''Records'' JNull JNull
            (NARAImporter ''WJC-NSCSW'' True None None))) (py_str 7388842) = Some ''dry-run-pi''"
proof -
  let ?st = "NARAImporter ''WJC-NSCSW'' True None None"
  have h: "dry_run ?st"
    by (simp add: NARAImporter_def)
  have e: "nara_to_pi ?st k = None" "calls ?st = []" "stats ?st = zero_stats" for k
    by (simp_all add: NARAImporter_def)
  have c: "case import_collection demo_env 7388842 ''Records'' JNull JNull ?st of (r, st') \<Rightarrow>
            r = Inr (case nara_to_pi ?st (py_str 7388842) of None \<Rightarrow> ''dry-run-pi'' | Some v \<Rightarrow> v)
            \<and> nara_to_pi st' (py_str 7388842) = Some (case nara_to_pi ?st (py_str 7388842) of
                                                  None \<Rightarrow> ''dry-run-pi'' | Some v \<Rightarrow> v)
            \<and> calls st' = calls ?st \<and> stats st' = stats ?st"
    by (rule dry_run_operations [OF h, THEN conjunct2, THEN conjunct1])
  show ?thesis
    using h c by (simp add: e split: prod.splits)
qed

text \<open>
  Claim C10 as stated fails for a dry-run importer that is given initial mappings: the
  guard for an already mapped id comes first and returns the recorded store id, not the
  sentinel.
\<close>

theorem dry_run_counterexample:
  "fst (import_collection demo_env 7388842 ''Records'' JNull JNull
          (NARAImporter ''WJC-NSCSW'' True (Some [''7388842'' \<mapsto> ''01REAL'']) None))
     = Inr ''01REAL''
   \<and> fst (import_collection demo_env 7388842 ''Records'' JNull JNull
          (NARAImporter ''WJC-NSCSW'' True (Some [''7388842'' \<mapsto> ''01REAL'']) None))
     \<noteq> Inr ''dry-run-pi''"
  by (simp add: import_collection_def NARAImporter_def py_str_eval)


section \<open>The catalog record of a verified asset\<close>

lemma uploaded_append: "uploaded (cs @ ds) = uploaded cs @ uploaded ds"
  by (induction cs rule: uploaded.induct) simp_all

lemma digitalobject_record_content_hash:
  "json_field (create_digitalobject_catalog_record now oid p fn ty u ch sz pg tx fm)
     ''content_hash'' = Some ch"
  by (simp add: create_digitalobject_catalog_record_def set_if_truthy_def Let_def update_conv'
      split: option.splits)

lemma digitalobject_record_file_size:
  "json_field (create_digitalobject_catalog_record now oid p fn ty u ch sz pg tx fm)
     ''file_size'' = Some (JInt sz)"
  by (simp add: create_digitalobject_catalog_record_def set_if_truthy_def Let_def update_conv'
      split: option.splits)

lemma digitalobject_record_extracted_text:
  "json_field (create_digitalobject_catalog_record now oid p fn ty u ch sz pg tx fm)
     ''extracted_text''
   = (case tx of None \<Rightarrow> None | Some t \<Rightarrow> if t = [] then None else Some (JStr t))"
  by (simp add: create_digitalobject_catalog_record_def set_if_truthy_def Let_def update_conv'
      opt_str_def split: option.splits)

lemma file_size_or_cases:
  "file_size_or fs n = (case fs of None \<Rightarrow> int n | Some s \<Rightarrow> if s = 0 then int n else s)"
  by (simp add: file_size_or_def opt_int_def split: option.splits)

text \<open>What a real import of an unmapped asset sends once the download has been hashed.\<close>

lemma import_digitalobject_trace:
  assumes "\<not> dry_run st" and "nara_to_pi st oid = None"
    and "download_and_hash_s3 (download_reply ev (calls st) u) = Inr (digest, n)"
  shows "\<exists>now. uploaded (calls (snd (import_digitalobject ev oid p fn ty u fs pg tx fm st)))
           = uploaded (calls st)
             @ [create_digitalobject_catalog_record now oid p fn ty u
                  (create_content_hash_object digest ''sha256'') (file_size_or fs n) pg tx fm]
         \<and> (\<forall>pi. fst (import_digitalobject ev oid p fn ty u fs pg tx fm st) = Inr pi \<longrightarrow>
              (\<exists>cid parent note.
                 upload_json_reply ev (calls st @ [Download u])
                   (create_digitalobject_catalog_record now oid p fn ty u
                      (create_content_hash_object digest ''sha256'') (file_size_or fs n) pg tx fm)
                   = Inr cid
                 \<and> calls (snd (import_digitalobject ev oid p fn ty u fs pg tx fm st))
                     = calls st @ [Download u,
                         UploadJson (create_digitalobject_catalog_record now oid p fn ty u
                           (create_content_hash_object digest ''sha256'') (file_size_or fs n)
                           pg tx fm),
                         CreateEntity [(''digital_object_metadata'', cid)] parent note]))"
  using assms
  by (auto simp: import_digitalobject_def http_download_def api_upload_json_def
      api_create_entity_def Let_def ledger_record_def uploaded_append
      split: sum.splits prod.splits)

text \<open>
  Claim C7 (amended).  For every child asset that is really imported (not a dry run, not
  yet mapped) and whose verification succeeds, the DigitalObject catalog record that is
  uploaded embeds the verified digest under content\_hash, the asset's OCR text when it
  is present and not empty, and as file\_size the size declared by the source when that
  is given and not zero, otherwise the verified byte count; when the entity is created,
  its creation call attaches the content address the store returned for that record.
\<close>

theorem digitalobject_record_embeds_verification:
  assumes "\<not> dry_run st" and "nara_to_pi st oid = None"
    and "download_and_hash_s3 (download_reply ev (calls st) u) = Inr (digest, n)"
  shows "\<exists>rec. uploaded (calls (snd (import_digitalobject ev oid p fn ty u fs pg tx fm st)))
           = uploaded (calls st) @ [rec]
       \<and> json_field rec ''content_hash''
           = Some (JDict [(''algorithm'', JStr ''sha256''), (''digest_hex'', JStr digest)])
       \<and> json_field rec ''file_size''
           = Some (JInt (case fs of None \<Rightarrow> int n | Some s \<Rightarrow> if s = 0 then int n else s))
       \<and> json_field rec ''extracted_text''
           = (case tx of None \<Rightarrow> None | Some t \<Rightarrow> if t = [] then None else Some (JStr t))
       \<and> (\<forall>pi. fst (import_digitalobject ev oid p fn ty u fs pg tx fm st) = Inr pi \<longrightarrow>
            (\<exists>cid parent note.
               upload_json_reply ev (calls st @ [Download u]) rec = Inr cid
               \<and> calls (snd (import_digitalobject ev oid p fn ty u fs pg tx fm st))
                   = calls st @ [Download u, UploadJson rec,
                                 CreateEntity [(''digital_object_metadata'', cid)] parent note]))"
proof -
  from import_digitalobject_trace [OF assms, of p fn ty fs pg tx fm]
  obtain now where
    t: "uploaded (calls (snd (import_digitalobject ev oid p fn ty u fs pg tx fm st)))
           = uploaded (calls st)
             @ [create_digitalobject_catalog_record now oid p fn ty u
                  (create_content_hash_object digest ''sha256'') (file_size_or fs n) pg tx fm]"
    and c: "\<forall>pi. fst (import_digitalobject ev oid p fn ty u fs pg tx fm st) = Inr pi \<longrightarrow>
              (\<exists>cid parent note.
                 upload_json_reply ev (calls st @ [Download u])
                   (create_digitalobject_catalog_record now oid p fn ty u
                      (create_content_hash_object digest ''sha256'') (file_size_or fs n) pg tx fm)
                   = Inr cid
                 \<and> calls (snd (import_digitalobject ev oid p fn ty u fs pg tx fm st))
                     = calls st @ [Download u,
                         UploadJson (create_digitalobject_catalog_record now oid p fn ty u
                           (create_content_hash_object digest ''sha256'') (file_size_or fs n)
                           pg tx fm),
                         CreateEntity [(''digital_object_metadata'', cid)] parent note])"
    by blast
  let ?rec = "create_digitalobject_catalog_record now oid p fn ty u
                (create_content_hash_object digest ''sha256'') (file_size_or fs n) pg tx fm"
  have h: "json_field ?rec ''content_hash''
           = Some (JDict [(''algorithm'', JStr ''sha256''), (''digest_hex'', JStr digest)])"
    by (simp add: digitalobject_record_content_hash create_content_hash_object_def)
  have s: "json_field ?rec ''file_size''
           = Some (JInt (case fs of None \<Rightarrow> int n | Some s \<Rightarrow> if s = 0 then int n else s))"
    by (simp add: digitalobject_record_file_size file_size_or_cases)
  have x: "json_field ?rec ''extracted_text''
           = (case tx of None \<Rightarrow> None | Some t \<Rightarrow> if t = [] then None else Some (JStr t))"
    by (rule digitalobject_record_extracted_text)
  show ?thesis
    using t h s x c by blast
qed

lemma demo_download:
  "download_and_hash_s3 (download_reply demo_env cs ''s3://bucket/page1.jpg'')
     = Inr (sha256_hex [1, 2, 3], 3)"
  by (simp add: demo_env_def download_and_hash_s3_def raise_for_status_def)

theorem digitalobject_record_embeds_verification_witness:
  "\<not> dry_run demo_importer \<and> nara_to_pi demo_importer ''obj1'' = None
   \<and> download_and_hash_s3 (download_reply demo_env (calls demo_importer) ''s3://bucket/page1.jpg'')
       = Inr (sha256_hex [1, 2, 3], 3)
   \<and> (\<exists>rec. uploaded (calls (snd (import_digitalobject demo_env ''obj1'' 23902919 ''page1.jpg''
                  ''Image (JPG)'' ''s3://bucket/page1.jpg'' None (Some 1) (Some ''OCR'') JNull
                  demo_importer))) = [rec]
          \<and> json_field rec ''content_hash''
              = Some (JDict [(''algorithm'', JStr ''sha256''),
                             (''digest_hex'', JStr (sha256_hex [1, 2, 3]))])
          \<and> json_field rec ''file_size'' = Some (JInt 3)
          \<and> json_field rec ''extracted_text'' = Some (JStr ''OCR''))"
proof -
  have h1: "\<not> dry_run demo_importer" by (simp add: demo_importer_def NARAImporter_def)
  have h2: "nara_to_pi demo_importer ''obj1'' = None"
    by (simp add: demo_importer_def NARAImporter_def)
  have h3: "download_and_hash_s3
              (download_reply demo_env (calls demo_importer) ''s3://bucket/page1.jpg'')
            = Inr (sha256_hex [1, 2, 3], 3)"
    by (rule demo_download)
  have e: "uploaded (calls demo_importer) = []"
    by (simp add: demo_importer_def NARAImporter_def)
  from digitalobject_record_embeds_verification [OF h1 h2 h3, of 23902919 "''page1.jpg''"
      "''Image (JPG)''" None "Some 1" "Some ''OCR''" JNull]
  obtain rec where
    "uploaded (calls (snd (import_digitalobject demo_env ''obj1'' 23902919 ''page1.jpg''
        ''Image (JPG)'' ''s3://bucket/page1.jpg'' None (Some 1) (Some ''OCR'') JNull
        demo_importer))) = uploaded (calls demo_importer) @ [rec]"
    "json_field rec ''content_hash''
       = Some (JDict [(''algorithm'', JStr ''sha256''),
                      (''digest_hex'', JStr (sha256_hex [1, 2, 3]))])"
    "json_field rec ''file_size'' = Some (JInt (int 3))"
    "json_field rec ''extracted_text'' = Some (JStr ''OCR'')"
    by auto
  then show ?thesis using h1 h2 h3 e by auto
qed

text \<open>
  Claim C7 as stated fails when the source declares a file size: the record carries the
  declared size (here 100), not the verified byte count (here 3).
\<close>

theorem digitalobject_file_size_counterexample:
  "download_and_hash_s3 (download_reply demo_env (calls demo_importer) ''s3://bucket/page1.jpg'')
     = Inr (sha256_hex [1, 2, 3], 3)
   \<and> map (\<lambda>rec. json_field rec ''file_size'')
       (uploaded (calls (snd (import_digitalobject demo_env ''obj1'' 23902919 ''page1.jpg''
          ''Image (JPG)'' ''s3://bucket/page1.jpg'' (Some 100) (Some 1) None JNull
          demo_importer))))
     = [Some (JInt 100)]"
proof -
  have d: "download_reply demo_env cs ''s3://bucket/page1.jpg'' = Response 200 [[1, 2, 3]] True"
    for cs
    by (simp add: demo_env_def)
  have u: "upload_json_reply demo_env cs data = Inr ''bafy-cid''" for cs data
    by (simp add: demo_env_def)
  have c: "create_entity_reply demo_env cs comps parent nt = Inr \<lparr>er_pi = ''pi/'' @ nt, er_ver = 1\<rparr>"
    for cs comps parent nt
    by (simp add: demo_env_def)
  show ?thesis
    by (simp add: demo_download import_digitalobject_def demo_importer_def NARAImporter_def
        http_download_def api_upload_json_def api_create_entity_def d u c
        download_and_hash_s3_def raise_for_status_def Let_def ledger_record_def
        create_digitalobject_catalog_record_def set_if_truthy_def file_size_or_def
        opt_int_def opt_str_def)
qed


section \<open>A file unit with five assets, the third of which cannot be verified\<close>

lemma demo_env_replies:
  "upload_json_reply demo_env cs data = Inr ''bafy-cid''"
  "create_entity_reply demo_env cs comps parent nt = Inr \<lparr>er_pi = ''pi/'' @ nt, er_ver = 1\<rparr>"
  "download_reply demo_env cs url =
     (if url = ''s3://bucket/page3.jpg'' then RequestFailed else Response 200 [[1, 2, 3]] True)"
  "utcnow demo_env cs = ''2025-01-01T00:00:00''"
  by (simp_all add: demo_env_def)

text \<open>
  Claim C4 fails on the error counter.  The file unit is created and its store id
  returned, four digital objects are created, the assets after the failed one are
  processed, but the one failure is counted twice: once in \<open>import_digitalobject\<close>,
  which re-raises, and once more in the loop of \<open>import_fileunit\<close>.
\<close>

theorem import_fileunit_third_asset_fails:
  "(case import_fileunit demo_env 23902919 7585787 7388842 ''Folder'' (JList []) five_assets
           JNull JNull JNull JNull JNull demo_importer of
      (r, st') \<Rightarrow>
        r = Inr ''pi/FileUnit: Folder (naId:23902919, 5 pages)''
        \<and> fileunits_created (stats st') = 1
        \<and> digitalobjects_created (stats st') = 4
        \<and> map (\<lambda>k. nara_to_pi st' k \<noteq> None) [''obj1'', ''obj2'', ''obj3'', ''obj4'', ''obj5'']
            = [True, True, False, True, True]
        \<and> length (filter is_create_entity (calls st')) = 5
        \<and> errors (stats st') = 2)"
  by (simp add: import_fileunit_def five_assets_def demo_object_def demo_importer_def
      NARAImporter_def zero_stats_def import_object_entry_def getitem_def
      import_digitalobject_def http_download_def api_upload_json_def api_create_entity_def
      demo_env_replies download_and_hash_s3_def raise_for_status_def Let_def ledger_record_def
      py_str_eval py_str_opt_def)


section \<open>The uploaded bytes do not depend on key order\<close>

lemma distinct_keys_sort_key:
  "distinct (map fst (sort_key fst xs)) = distinct (map fst xs)"
  by (induction xs) (simp_all add: distinct_insort_key)

lemma sorted_keys_unique:
  assumes "distinct (map fst kvs)" and "distinct (map fst kws)"
    and "set (map fst kvs) = set (map fst kws)"
  shows "map fst (sort_key fst kvs) = map fst (sort_key fst kws)"
proof (rule sorted_distinct_set_unique)
  show "sorted (map fst (sort_key fst kvs))" by simp
  show "distinct (map fst (sort_key fst kvs))" using assms(1) by (simp add: distinct_keys_sort_key)
  show "sorted (map fst (sort_key fst kws))" by simp
  show "distinct (map fst (sort_key fst kws))" using assms(2) by (simp add: distinct_keys_sort_key)
  show "set (map fst (sort_key fst kvs)) = set (map fst (sort_key fst kws))"
    using assms(3) by simp
qed

lemma json_dumps_same_map: "same_map a b \<Longrightarrow> json_dumps a = json_dumps b"
proof (induction a b rule: same_map.induct)
  case (1 xs b)
  from "1.prems" obtain ys where b: "b = JList ys" and len: "length xs = length ys"
    and el: "\<forall>i < length xs. same_map (xs ! i) (ys ! i)"
    by (cases b) auto
  have "map json_dumps xs = map json_dumps ys"
    using len el "1.IH" [OF b] by (simp add: list_eq_iff_nth_eq)
  then show ?case using b by simp
next
  case (2 kvs b)
  from "2.prems" obtain kws where b: "b = JDict kws"
    and d1: "distinct (map fst kvs)" and d2: "distinct (map fst kws)"
    and ks: "set (map fst kvs) = set (map fst kws)"
    and el: "\<forall>kv \<in> set kvs. \<forall>kw \<in> set kws. fst kv = fst kw \<longrightarrow> same_map (snd kv) (snd kw)"
    by (cases b) auto
  let ?xs = "sort_key fst kvs" and ?ys = "sort_key fst kws"
  have keys: "map fst ?xs = map fst ?ys"
    using d1 d2 ks by (rule sorted_keys_unique)
  then have len: "length ?xs = length ?ys"
    by (rule map_eq_imp_length_eq)
  have item: "dumps_str (fst (?xs ! i)) @ '': '' @ json_dumps (snd (?xs ! i))
            = dumps_str (fst (?ys ! i)) @ '': '' @ json_dumps (snd (?ys ! i))"
    if i: "i < length ?xs" for i
  proof -
    have k: "fst (?xs ! i) = fst (?ys ! i)"
      using keys i len by (metis nth_map)
    have mx: "?xs ! i \<in> set kvs" using i by (metis nth_mem set_sort)
    have my: "?ys ! i \<in> set kws" using i len by (metis nth_mem set_sort)
    have "same_map (snd (?xs ! i)) (snd (?ys ! i))"
      using el mx my k by blast
    then have "json_dumps (snd (?xs ! i)) = json_dumps (snd (?ys ! i))"
      using "2.IH" [OF b mx my k] by simp
    with k show ?thesis by simp
  qed
  have "map (\<lambda>kv. dumps_str (fst kv) @ '': '' @ json_dumps (snd kv)) ?xs
      = map (\<lambda>kv. dumps_str (fst kv) @ '': '' @ json_dumps (snd kv)) ?ys"
    using len item by (simp add: list_eq_iff_nth_eq)
  then show ?case using b by simp
qed (auto split: json.splits)


lemma json_dumps_sorted_dict: "json_dumps (JDict (sort_key fst kvs)) = json_dumps (JDict kvs)"
  by (simp add: sort_key_id_if_sorted)

text \<open>
  Claim C9 (amended).  \<open>upload_json\<close> posts the bytes of the dump with sorted keys.  Two
  dictionaries that are the same up to the insertion order of their keys at any depth
  (the same keys and, under each key, values of the same kind that print alike) have
  the same dump, so the same bytes are posted; and when the store accepts them, both
  calls return the content address the store gives for those bytes.
\<close>

theorem upload_json_same_map:
  assumes "same_map d1 d2"
  shows "json_dumps d1 = json_dumps d2
       \<and> snd (upload_json store d1 sent) = sent @ [bytes_of (json_dumps d1)]
       \<and> upload_json store d1 sent = upload_json store d2 sent
       \<and> (\<forall>status cid sz.
            store (bytes_of (json_dumps d1)) = UploadReply status cid sz
            \<and> \<not> raise_for_status status \<longrightarrow>
            fst (upload_json store d1 sent) = Inr cid
            \<and> fst (upload_json store d2 sent) = Inr cid)"
  using json_dumps_same_map [OF assms]
  by (auto simp: upload_json_def upload_bytes_def Let_def split: upload_reply.splits)

theorem upload_json_same_map_witness:
  \<open>same_map (JDict [(''b'', JInt 1), (''a'', JDict [(''y'', JNull), (''x'', JStr ''v'')])])
            (JDict [(''a'', JDict [(''x'', JStr ''v''), (''y'', JNull)]), (''b'', JInt 1)])
   \<and> json_dumps (JDict [(''a'', JDict [(''x'', JStr ''v''), (''y'', JNull)]), (''b'', JInt 1)])
       = ''{"a": {"x": "v", "y": null}, "b": 1}''
   \<and> upload_json demo_store
         (JDict [(''b'', JInt 1), (''a'', JDict [(''y'', JNull), (''x'', JStr ''v'')])]) []
       = upload_json demo_store
           (JDict [(''a'', JDict [(''x'', JStr ''v''), (''y'', JNull)]), (''b'', JInt 1)]) []\<close>
proof -
  have h: "same_map (JDict [(''b'', JInt 1), (''a'', JDict [(''y'', JNull), (''x'', JStr ''v'')])])
            (JDict [(''a'', JDict [(''x'', JStr ''v''), (''y'', JNull)]), (''b'', JInt 1)])"
    by (simp add: insert_commute)
  have e: \<open>json_dumps (JDict [(''a'', JDict [(''x'', JStr ''v''), (''y'', JNull)]), (''b'', JInt 1)])
       = ''{"a": {"x": "v", "y": null}, "b": 1}''\<close>
    by (simp add: dumps_str_def escape_char_def py_str_eval less_eq_char_def less_char_def)
  have u: "upload_json demo_store
             (JDict [(''b'', JInt 1), (''a'', JDict [(''y'', JNull), (''x'', JStr ''v'')])]) []
       = upload_json demo_store
           (JDict [(''a'', JDict [(''x'', JStr ''v''), (''y'', JNull)]), (''b'', JInt 1)]) []"
    using upload_json_same_map [OF h, of demo_store "[]"]
    by (rule conjunct2 [THEN conjunct2, THEN conjunct1])
  show ?thesis using h e u by (intro conjI)
qed

text \<open>
  Claim C9 as stated fails for dictionaries that are equal in Python but hold values of
  different kinds: \<^verbatim>\<open>{"a": 1} == {"a": True}\<close>, yet the dumps and so the posted bytes
  differ.
\<close>

theorem upload_json_equal_dicts_counterexample:
  \<open>py_eq (JDict [(''a'', JInt 1)]) (JDict [(''a'', JBool True)])
   \<and> json_dumps (JDict [(''a'', JInt 1)]) = ''{"a": 1}''
   \<and> json_dumps (JDict [(''a'', JBool True)]) = ''{"a": true}''
   \<and> snd (upload_json demo_store (JDict [(''a'', JInt 1)]) [])
       \<noteq> snd (upload_json demo_store (JDict [(''a'', JBool True)]) [])\<close>
  by (simp add: num_eq_def dyadic_eq_def dumps_str_def escape_char_def py_str_eval
      upload_json_def upload_bytes_def demo_store_def bytes_of_def Let_def
      split: prod.splits)


end
